theory Spec2Isabelle
  imports Main "HOL-Library.Word"
begin

section \<open>The robots of main.cpp\<close>

text \<open>
  All counters of the program are \<open>uint32_t\<close>: 32-bit words, whose \<open>+\<close> and \<open>-\<close> wrap
  and whose order is the unsigned one.
\<close>

type_synonym u32 = "32 word"

text \<open>
  \<open>enum class RobotType\<close> has the enumerators \<open>kInfantry = 0\<close> and \<open>kEngineer = 1\<close>.
  \<open>main\<close> casts the third operand of an \<open>A\<close> line to \<open>RobotType\<close> unchecked, so a
  value naming neither enumerator can reach \<open>HandleCommandA\<close>; \<open>kOther\<close> stands for
  those values. No robot object ever reports \<open>kOther\<close> from \<open>GetType\<close>.
\<close>

datatype RobotType = kInfantry | kEngineer | kOther

text \<open>
  \<open>class BaseRobot\<close>. The members \<open>heat_\<close>, \<open>max_heat_\<close>, \<open>level_\<close>, \<open>max_blood_\<close>,
  \<open>blood_\<close> and \<open>type\<close> are written here without the trailing underscore, and \<open>type\<close>
  as \<open>rtype\<close>. The dynamic class of an object (InfantryRobot or EngineerRobot) is
  what its constructor stored in \<open>type\<close>, so \<open>rtype\<close> also selects the override of
  the virtual functions.
\<close>

record BaseRobot =
  team_id :: u32
  robot_id :: u32
  heat :: u32
  max_heat :: u32
  level :: u32
  max_blood :: u32
  rtype :: RobotType
  blood :: u32

definition BaseRobot_new :: "u32 \<Rightarrow> u32 \<Rightarrow> RobotType \<Rightarrow> BaseRobot" where
  "BaseRobot_new tid rid ty =
     \<lparr>team_id = tid, robot_id = rid, heat = 0, max_heat = 0, level = 1,
      max_blood = 0, rtype = ty, blood = 0\<rparr>"

definition GetId :: "BaseRobot \<Rightarrow> u32 \<times> u32" where
  "GetId r = (team_id r, robot_id r)"

definition IsDead :: "BaseRobot \<Rightarrow> bool" where
  "IsDead r = (if blood r \<le> 0 then True else False)"

definition ChangeHeat :: "u32 \<Rightarrow> BaseRobot \<Rightarrow> BaseRobot" where
  "ChangeHeat time_delta r =
     (let r1 = r\<lparr>heat := (if heat r > time_delta then heat r - time_delta else 0)\<rparr>
      in if heat r1 > max_heat r1
         then r1\<lparr>blood := (if blood r1 > time_delta then blood r1 - time_delta else 0)\<rparr>
         else r1)"

definition GetType :: "BaseRobot \<Rightarrow> RobotType" where
  "GetType r = rtype r"

subsection \<open>InfantryRobot\<close>

definition InfantryRobot_Rebuild :: "BaseRobot \<Rightarrow> BaseRobot" where
  "InfantryRobot_Rebuild r =
     (let r1 = r\<lparr>heat := 0\<rparr>;
          r2 = (if level r1 = 1 then r1\<lparr>max_blood := 100, max_heat := 100\<rparr>
                else if level r1 = 2 then r1\<lparr>max_blood := 150, max_heat := 200\<rparr>
                else if level r1 = 3 then r1\<lparr>max_blood := 250, max_heat := 300\<rparr>
                else r1\<lparr>max_blood := 100, max_heat := 100\<rparr>)
      in r2\<lparr>blood := max_blood r2\<rparr>)"

definition InfantryRobot_new :: "u32 \<Rightarrow> u32 \<Rightarrow> BaseRobot" where
  "InfantryRobot_new tid rid =
     InfantryRobot_Rebuild ((BaseRobot_new tid rid kInfantry)\<lparr>level := 1\<rparr>)"

text \<open>\<open>Upgrade\<close> returns its \<open>bool\<close> together with the object as it leaves it.\<close>

definition Upgrade :: "u32 \<Rightarrow> BaseRobot \<Rightarrow> bool \<times> BaseRobot" where
  "Upgrade target_level r =
     (if target_level > level r \<and> target_level \<le> 3
      then (True, InfantryRobot_Rebuild (r\<lparr>level := target_level\<rparr>))
      else (False, r))"

definition AddHeat :: "u32 \<Rightarrow> BaseRobot \<Rightarrow> BaseRobot" where
  "AddHeat add_heat r = r\<lparr>heat := heat r + add_heat\<rparr>"

subsection \<open>EngineerRobot\<close>

definition EngineerRobot_Rebuild :: "BaseRobot \<Rightarrow> BaseRobot" where
  "EngineerRobot_Rebuild r =
     (let r1 = r\<lparr>max_blood := 300\<rparr>;
          r2 = r1\<lparr>blood := max_blood r1\<rparr>;
          r3 = r2\<lparr>heat := 0\<rparr>
      in r3\<lparr>max_heat := 0\<rparr>)"

definition EngineerRobot_new :: "u32 \<Rightarrow> u32 \<Rightarrow> BaseRobot" where
  "EngineerRobot_new tid rid = EngineerRobot_Rebuild (BaseRobot_new tid rid kEngineer)"

text \<open>
  The virtual call \<open>robot->Rebuild()\<close>. \<open>BaseRobot::Rebuild\<close> is pure virtual and only
  the two subclasses exist, so the third case is never taken by an object of the program.
\<close>

definition Rebuild :: "BaseRobot \<Rightarrow> BaseRobot" where
  "Rebuild r =
     (case rtype r of
        kInfantry \<Rightarrow> InfantryRobot_Rebuild r
      | kEngineer \<Rightarrow> EngineerRobot_Rebuild r
      | kOther \<Rightarrow> r)"

section \<open>RobotManager\<close>

text \<open>
  The two vectors hold \<open>shared_ptr\<close>s. Every object is pushed to \<open>dead_robots_\<close> only
  while it is erased from \<open>live_robots_\<close>, and pushed to \<open>live_robots_\<close> only when it is
  new or erased from \<open>dead_robots_\<close> in the same call, so no object is ever held twice
  and the vectors are modelled as lists of values. A write through the pointer that
  \<open>find_if\<close> returned is \<open>modify_first\<close>: it changes the first element that satisfies
  the predicate, which is the one \<open>find_if\<close> points to. The lines written to
  \<open>std::cout\<close> are the field \<open>cout\<close>: one pair \<open>(team_id, robot_id)\<close> for each line
  \<open>D team_id robot_id\<close>, oldest first.
\<close>

fun modify_first :: "('a \<Rightarrow> bool) \<Rightarrow> ('a \<Rightarrow> 'a) \<Rightarrow> 'a list \<Rightarrow> 'a list" where
  "modify_first P f [] = []"
| "modify_first P f (x # xs) = (if P x then f x # xs else x # modify_first P f xs)"

record RobotManager =
  live_robots :: "BaseRobot list"
  dead_robots :: "BaseRobot list"
  last_time :: u32
  cout :: "(u32 \<times> u32) list"

definition RobotManager_new :: RobotManager where
  "RobotManager_new = \<lparr>live_robots = [], dead_robots = [], last_time = 0, cout = []\<rparr>"

definition FindLiveRobot :: "u32 \<Rightarrow> u32 \<Rightarrow> RobotManager \<Rightarrow> BaseRobot option" where
  "FindLiveRobot tid rid m = find (\<lambda>robot. GetId robot = (tid, rid)) (live_robots m)"

definition FindDeadRobot :: "u32 \<Rightarrow> u32 \<Rightarrow> RobotType \<Rightarrow> RobotManager \<Rightarrow> BaseRobot option" where
  "FindDeadRobot tid rid ty m =
     find (\<lambda>robot. GetId robot = (tid, rid) \<and> GetType robot = ty) (dead_robots m)"

text \<open>
  The loop of \<open>HandleTimeChange\<close>, from the iterator's position on: the first list is
  the rest of \<open>live_robots_\<close> still to visit, the result's first component is what
  stays of it.
\<close>

fun decay_loop :: "u32 \<Rightarrow> BaseRobot list \<Rightarrow> BaseRobot list \<Rightarrow> (u32 \<times> u32) list
    \<Rightarrow> BaseRobot list \<times> BaseRobot list \<times> (u32 \<times> u32) list" where
  "decay_loop time_delta [] dead out = ([], dead, out)"
| "decay_loop time_delta (r # rest) dead out =
     (let r' = ChangeHeat time_delta r
      in if IsDead r'
         then decay_loop time_delta rest (dead @ [r']) (out @ [GetId r'])
         else (case decay_loop time_delta rest dead out of
                 (live', dead', out') \<Rightarrow> (r' # live', dead', out')))"

definition HandleTimeChange :: "u32 \<Rightarrow> RobotManager \<Rightarrow> RobotManager" where
  "HandleTimeChange curr_time m =
     (if curr_time \<le> last_time m then m
      else (let time_delta = curr_time - last_time m
            in case decay_loop time_delta (live_robots m) (dead_robots m) (cout m) of
                 (live', dead', out') \<Rightarrow>
                   m\<lparr>live_robots := live', dead_robots := dead', last_time := curr_time,
                     cout := out'\<rparr>))"

definition HandleCommandA :: "u32 \<Rightarrow> u32 \<Rightarrow> RobotType \<Rightarrow> RobotManager \<Rightarrow> RobotManager" where
  "HandleCommandA tid rid ty m =
     (if FindLiveRobot tid rid m \<noteq> None then m
      else (case FindDeadRobot tid rid ty m of
              Some robot \<Rightarrow>
                (let dead1 = modify_first (\<lambda>x. GetId x = (tid, rid) \<and> GetType x = ty)
                               Rebuild (dead_robots m)
                 in m\<lparr>live_robots := live_robots m @ [Rebuild robot],
                      dead_robots := filter (\<lambda>x. GetId x \<noteq> (tid, rid)) dead1\<rparr>)
            | None \<Rightarrow>
                (if ty = kInfantry
                 then m\<lparr>live_robots := live_robots m @ [InfantryRobot_new tid rid]\<rparr>
                 else if ty = kEngineer
                 then m\<lparr>live_robots := live_robots m @ [EngineerRobot_new tid rid]\<rparr>
                 else m)))"

definition HandleCommandF :: "u32 \<Rightarrow> u32 \<Rightarrow> u32 \<Rightarrow> RobotManager \<Rightarrow> RobotManager" where
  "HandleCommandF tid rid damage m =
     (case FindLiveRobot tid rid m of
        None \<Rightarrow> m
      | Some robot \<Rightarrow>
          (if IsDead robot then m
           else (let new_blood = (if blood robot > damage then blood robot - damage else 0);
                     robot' = robot\<lparr>blood := new_blood\<rparr>;
                     live1 = modify_first (\<lambda>x. GetId x = (tid, rid))
                               (\<lambda>x. x\<lparr>blood := new_blood\<rparr>) (live_robots m)
                 in if IsDead robot'
                    then m\<lparr>live_robots := filter (\<lambda>x. GetId x \<noteq> GetId robot') live1,
                           dead_robots := dead_robots m @ [robot'],
                           cout := cout m @ [GetId robot']\<rparr>
                    else m\<lparr>live_robots := live1\<rparr>)))"

text \<open>
  \<open>dynamic_pointer_cast<InfantryRobot>\<close> gives a non-null pointer exactly for an
  object of class InfantryRobot.
\<close>

definition HandleCommandH :: "u32 \<Rightarrow> u32 \<Rightarrow> u32 \<Rightarrow> RobotManager \<Rightarrow> RobotManager" where
  "HandleCommandH tid rid add_heat m =
     (case FindLiveRobot tid rid m of
        None \<Rightarrow> m
      | Some robot \<Rightarrow>
          (if GetType robot = kEngineer then m
           else if rtype robot = kInfantry
           then m\<lparr>live_robots := modify_first (\<lambda>x. GetId x = (tid, rid))
                                   (AddHeat add_heat) (live_robots m)\<rparr>
           else m))"

definition HandCommandU :: "u32 \<Rightarrow> u32 \<Rightarrow> u32 \<Rightarrow> RobotManager \<Rightarrow> RobotManager" where
  "HandCommandU tid rid target_level m =
     (case FindLiveRobot tid rid m of
        None \<Rightarrow> m
      | Some robot \<Rightarrow>
          (if GetType robot = kEngineer then m
           else if rtype robot = kInfantry
           then m\<lparr>live_robots := modify_first (\<lambda>x. GetId x = (tid, rid))
                                   (\<lambda>x. snd (Upgrade target_level x)) (live_robots m)\<rparr>
           else m))"

subsection \<open>main\<close>

text \<open>\<open>static_cast<RobotType>(p3)\<close>.\<close>

definition RobotType_of :: "u32 \<Rightarrow> RobotType" where
  "RobotType_of p3 = (if p3 = 0 then kInfantry else if p3 = 1 then kEngineer else kOther)"

text \<open>The body of the loop of \<open>main\<close> for one line \<open>time cmd p1 p2 p3\<close> that was read.\<close>

definition main_step :: "RobotManager \<Rightarrow> u32 \<times> string \<times> u32 \<times> u32 \<times> u32 \<Rightarrow> RobotManager" where
  "main_step m ln =
     (case ln of (time, cmd, p1, p2, p3) \<Rightarrow>
        (let m1 = HandleTimeChange time m
         in if cmd = ''A'' then HandleCommandA p1 p2 (RobotType_of p3) m1
            else if cmd = ''F'' then HandleCommandF p1 p2 p3 m1
            else if cmd = ''H'' then HandleCommandH p1 p2 p3 m1
            else if cmd = ''U'' then HandCommandU p1 p2 p3 m1
            else m1))"

definition main_loop :: "(u32 \<times> string \<times> u32 \<times> u32 \<times> u32) list \<Rightarrow> RobotManager" where
  "main_loop lns = foldl main_step RobotManager_new lns"

subsection \<open>Reachable states\<close>

text \<open>
  The states of the manager that calls of its public functions produce from the
  freshly constructed one, in any order and with any arguments.
\<close>

inductive reachable :: "RobotManager \<Rightarrow> bool" where
  r_new: "reachable RobotManager_new"
| r_time: "reachable m \<Longrightarrow> reachable (HandleTimeChange curr_time m)"
| r_A: "reachable m \<Longrightarrow> reachable (HandleCommandA tid rid ty m)"
| r_F: "reachable m \<Longrightarrow> reachable (HandleCommandF tid rid damage m)"
| r_H: "reachable m \<Longrightarrow> reachable (HandleCommandH tid rid add_heat m)"
| r_U: "reachable m \<Longrightarrow> reachable (HandCommandU tid rid target_level m)"

section \<open>Properties stated about the manager\<close>

text \<open>
  The health that the registry shows for a pair \<open>(team_id, robot_id)\<close>: the \<open>blood_\<close>
  of the live robot that \<open>FindLiveRobot\<close> returns, and 0 when there is none (a robot
  leaves \<open>live_robots_\<close> only with \<open>blood_ = 0\<close>).
\<close>

definition health_of :: "u32 \<Rightarrow> u32 \<Rightarrow> RobotManager \<Rightarrow> nat" where
  "health_of tid rid m =
     (case FindLiveRobot tid rid m of None \<Rightarrow> 0 | Some robot \<Rightarrow> unat (blood robot))"

text \<open>The invariants of the two vectors that the proofs below establish.\<close>

definition live_distinct :: "RobotManager \<Rightarrow> bool" where
  "live_distinct m = distinct (map GetId (live_robots m))"

definition live_alive :: "RobotManager \<Rightarrow> bool" where
  "live_alive m = (\<forall>l \<in> set (live_robots m). \<not> IsDead l)"

definition kind_disjoint :: "RobotManager \<Rightarrow> bool" where
  "kind_disjoint m =
     (\<forall>l \<in> set (live_robots m). \<forall>d \<in> set (dead_robots m).
        \<not> (GetId l = GetId d \<and> GetType l = GetType d))"

definition engineer_pinned :: "BaseRobot \<Rightarrow> bool" where
  "engineer_pinned r =
     (GetType r = kEngineer \<longrightarrow> max_blood r = 300 \<and> max_heat r = 0 \<and> heat r = 0)"

definition robot_wf :: "BaseRobot \<Rightarrow> bool" where
  "robot_wf r = (GetType r \<noteq> kOther \<and> engineer_pinned r)"

definition manager_inv :: "RobotManager \<Rightarrow> bool" where
  "manager_inv m =
     (live_distinct m \<and> live_alive m \<and> kind_disjoint m \<and>
      (\<forall>r \<in> set (live_robots m) \<union> set (dead_robots m). robot_wf r))"

subsection \<open>An example run\<close>

text \<open>
  Four robots are added at time 0 and the Infantry \<open>(1, 1)\<close> is upgraded to level 2;
  at time 50 three of them are heated and damaged.
\<close>

definition example_lines :: "(u32 \<times> string \<times> u32 \<times> u32 \<times> u32) list" where
  "example_lines =
     [(0, ''A'', 1, 1, 0), (0, ''A'', 1, 2, 0), (0, ''A'', 2, 1, 0), (0, ''A'', 3, 1, 1),
      (0, ''U'', 1, 1, 2),
      (50, ''H'', 1, 1, 250), (50, ''H'', 1, 2, 50), (50, ''H'', 2, 1, 300),
      (50, ''F'', 1, 1, 120), (50, ''F'', 1, 2, 20), (50, ''F'', 2, 1, 90)]"

definition example_run :: RobotManager where
  "example_run = main_loop example_lines"

text \<open>The same run once the time has advanced to 80.\<close>

definition example_later :: RobotManager where
  "example_later = HandleTimeChange 80 example_run"

text \<open>
  Then an Engineer is added under the pair \<open>(1, 1)\<close> of the dead Infantry and is
  destroyed in turn.
\<close>

definition example_both_dead :: RobotManager where
  "example_both_dead = HandleCommandF 1 1 300 (HandleCommandA 1 1 kEngineer example_later)"

section \<open>The decay step\<close>

lemma ChangeHeat_heat:
  "heat (ChangeHeat e r) = (if heat r > e then heat r - e else 0)"
  by (simp add: ChangeHeat_def Let_def)

lemma unat_clamped_sub:
  "unat (if (a::u32) > e then a - e else 0) = unat a - unat e"
  by (simp add: unat_sub word_less_nat_alt word_le_nat_alt)

lemma ChangeHeat_frame:
  "team_id (ChangeHeat e r) = team_id r" "robot_id (ChangeHeat e r) = robot_id r"
  "rtype (ChangeHeat e r) = rtype r" "level (ChangeHeat e r) = level r"
  "max_heat (ChangeHeat e r) = max_heat r" "max_blood (ChangeHeat e r) = max_blood r"
  by (simp_all add: ChangeHeat_def Let_def)

lemma ChangeHeat_blood:
  "blood (ChangeHeat e r) =
     (if heat (ChangeHeat e r) > max_heat r
      then (if blood r > e then blood r - e else 0) else blood r)"
  by (simp add: ChangeHeat_def Let_def)

lemma InfantryRobot_new_eq:
  "InfantryRobot_new tid rid =
     \<lparr>team_id = tid, robot_id = rid, heat = 0, max_heat = 100, level = 1,
      max_blood = 100, rtype = kInfantry, blood = 100\<rparr>"
  by (simp add: InfantryRobot_new_def InfantryRobot_Rebuild_def BaseRobot_new_def Let_def)

lemma EngineerRobot_new_eq:
  "EngineerRobot_new tid rid =
     \<lparr>team_id = tid, robot_id = rid, heat = 0, max_heat = 0, level = 1,
      max_blood = 300, rtype = kEngineer, blood = 300\<rparr>"
  by (simp add: EngineerRobot_new_def EngineerRobot_Rebuild_def BaseRobot_new_def Let_def)

text \<open>
  C1. \<open>ChangeHeat\<close> with elapsed time \<open>e\<close> (any \<open>e\<close>, so also every \<open>e > 0\<close>) leaves
  heat at \<open>max (heat - e) 0\<close>, read as numbers: the subtraction on \<open>nat\<close> stops at 0.
  If the heat after the decay is strictly above \<open>max_heat\<close>, health becomes
  \<open>max (health - e) 0\<close>, the elapsed time being the damage; otherwise health is as
  before. No other member changes. The level-1 Infantry with heat 150 and health 80
  has heat 120 and health 50 after an elapsed time of 30.
\<close>

theorem C1_decay_step:
  "unat (heat (ChangeHeat e r)) = unat (heat r) - unat e \<and>
   (max_heat r < heat (ChangeHeat e r) \<longrightarrow>
      unat (blood (ChangeHeat e r)) = unat (blood r) - unat e) \<and>
   (\<not> max_heat r < heat (ChangeHeat e r) \<longrightarrow> blood (ChangeHeat e r) = blood r) \<and>
   GetId (ChangeHeat e r) = GetId r \<and> GetType (ChangeHeat e r) = GetType r \<and>
   level (ChangeHeat e r) = level r \<and> max_heat (ChangeHeat e r) = max_heat r \<and>
   max_blood (ChangeHeat e r) = max_blood r \<and>
   level (InfantryRobot_new tid rid) = 1 \<and> max_heat (InfantryRobot_new tid rid) = 100 \<and>
   ChangeHeat 30 ((InfantryRobot_new tid rid)\<lparr>heat := 150, blood := 80\<rparr>) =
     (InfantryRobot_new tid rid)\<lparr>heat := 120, blood := 50\<rparr>"
proof -
  have h: "unat (heat (ChangeHeat e r)) = unat (heat r) - unat e"
    using unat_clamped_sub[of e "heat r"] by (simp add: ChangeHeat_heat)
  have b1: "max_heat r < heat (ChangeHeat e r) \<longrightarrow>
      unat (blood (ChangeHeat e r)) = unat (blood r) - unat e"
    using unat_clamped_sub[of e "blood r"] by (simp add: ChangeHeat_blood)
  have b2: "\<not> max_heat r < heat (ChangeHeat e r) \<longrightarrow> blood (ChangeHeat e r) = blood r"
    by (simp add: ChangeHeat_blood)
  have f: "GetId (ChangeHeat e r) = GetId r \<and> GetType (ChangeHeat e r) = GetType r \<and>
     level (ChangeHeat e r) = level r \<and> max_heat (ChangeHeat e r) = max_heat r \<and>
     max_blood (ChangeHeat e r) = max_blood r"
    by (simp add: GetId_def GetType_def ChangeHeat_frame)
  have ex: "level (InfantryRobot_new tid rid) = 1 \<and> max_heat (InfantryRobot_new tid rid) = 100 \<and>
     ChangeHeat 30 ((InfantryRobot_new tid rid)\<lparr>heat := 150, blood := 80\<rparr>) =
       (InfantryRobot_new tid rid)\<lparr>heat := 120, blood := 50\<rparr>"
    by (simp add: InfantryRobot_new_eq ChangeHeat_def Let_def)
  from h b1 b2 f ex show ?thesis by blast
qed

theorem C1_decay_step_witness:
  "max_heat (InfantryRobot_new 1 1) < heat (ChangeHeat 30 ((InfantryRobot_new 1 1)\<lparr>heat := 150, blood := 80\<rparr>)) \<and>
   unat (blood (ChangeHeat 30 ((InfantryRobot_new 1 1)\<lparr>heat := 150, blood := 80\<rparr>))) = 50 \<and>
   \<not> max_heat (InfantryRobot_new 1 1) < heat (ChangeHeat 30 ((InfantryRobot_new 1 1)\<lparr>heat := 50, blood := 80\<rparr>)) \<and>
   blood (ChangeHeat 30 ((InfantryRobot_new 1 1)\<lparr>heat := 50, blood := 80\<rparr>)) = 80"
  using C1_decay_step[of 30 "(InfantryRobot_new 1 1)\<lparr>heat := 150, blood := 80\<rparr>" 1 1]
        C1_decay_step[of 30 "(InfantryRobot_new 1 1)\<lparr>heat := 50, blood := 80\<rparr>" 1 1]
  by (simp add: InfantryRobot_new_eq ChangeHeat_heat)

section \<open>Auxiliary facts\<close>

lemma main_step_simps:
  "main_step m (t, ''A'', p1, p2, p3) = HandleCommandA p1 p2 (RobotType_of p3) (HandleTimeChange t m)"
  "main_step m (t, ''F'', p1, p2, p3) = HandleCommandF p1 p2 p3 (HandleTimeChange t m)"
  "main_step m (t, ''H'', p1, p2, p3) = HandleCommandH p1 p2 p3 (HandleTimeChange t m)"
  "main_step m (t, ''U'', p1, p2, p3) = HandCommandU p1 p2 p3 (HandleTimeChange t m)"
  by (simp_all add: main_step_def Let_def)

lemma example_run_eq:
  "example_run =
     \<lparr>live_robots =
        [\<lparr>team_id = 1, robot_id = 1, heat = 250, max_heat = 200, level = 2,
          max_blood = 150, rtype = kInfantry, blood = 30\<rparr>,
         \<lparr>team_id = 1, robot_id = 2, heat = 50, max_heat = 100, level = 1,
          max_blood = 100, rtype = kInfantry, blood = 80\<rparr>,
         \<lparr>team_id = 2, robot_id = 1, heat = 300, max_heat = 100, level = 1,
          max_blood = 100, rtype = kInfantry, blood = 10\<rparr>,
         \<lparr>team_id = 3, robot_id = 1, heat = 0, max_heat = 0, level = 1,
          max_blood = 300, rtype = kEngineer, blood = 300\<rparr>],
      dead_robots = [], last_time = 50, cout = []\<rparr>"
  by (simp add: example_run_def example_lines_def main_loop_def main_step_simps
      HandleTimeChange_def HandleCommandA_def HandleCommandF_def HandleCommandH_def
      HandCommandU_def FindLiveRobot_def FindDeadRobot_def RobotManager_new_def
      InfantryRobot_new_eq EngineerRobot_new_eq GetId_def GetType_def IsDead_def
      RobotType_of_def Upgrade_def InfantryRobot_Rebuild_def AddHeat_def ChangeHeat_def Let_def)

lemma IsDead_fun: "IsDead = (\<lambda>r. blood r = 0)"
  by (rule ext) (simp add: IsDead_def)

lemma find_split:
  "find P xs = Some x \<Longrightarrow>
     \<exists>pre post. xs = pre @ x # post \<and> (\<forall>y \<in> set pre. \<not> P y) \<and> P x \<and>
       (\<forall>f. modify_first P f xs = pre @ f x # post)"
proof (induction xs)
  case Nil
  then show ?case by simp
next
  case (Cons a xs)
  show ?case
  proof (cases "P a")
    case True
    with Cons.prems have "a = x" by simp
    with True have "a # xs = [] @ x # xs \<and> (\<forall>y \<in> set []. \<not> P y) \<and> P x \<and>
       (\<forall>f. modify_first P f (a # xs) = [] @ f x # xs)" by simp
    then show ?thesis by blast
  next
    case False
    with Cons.prems have "find P xs = Some x" by simp
    from Cons.IH[OF this] obtain pre post where
      h: "xs = pre @ x # post" "\<forall>y \<in> set pre. \<not> P y" "P x"
         "\<forall>f. modify_first P f xs = pre @ f x # post" by blast
    from False h have "a # xs = (a # pre) @ x # post \<and> (\<forall>y \<in> set (a # pre). \<not> P y) \<and> P x \<and>
       (\<forall>f. modify_first P f (a # xs) = (a # pre) @ f x # post)" by simp
    then show ?thesis by blast
  qed
qed

lemma Rebuild_frame:
  "GetId (Rebuild r) = GetId r" "GetType (Rebuild r) = GetType r" "level (Rebuild r) = level r"
  by (simp_all add: Rebuild_def InfantryRobot_Rebuild_def EngineerRobot_Rebuild_def
      GetId_def GetType_def Let_def split: RobotType.splits)

lemma Rebuild_Infantry:
  "rtype r = kInfantry \<Longrightarrow>
     Rebuild r = r\<lparr>heat := 0,
       max_blood := (if level r = 2 then 150 else if level r = 3 then 250 else 100),
       max_heat := (if level r = 2 then 200 else if level r = 3 then 300 else 100),
       blood := (if level r = 2 then 150 else if level r = 3 then 250 else 100)\<rparr>"
  by (simp add: Rebuild_def InfantryRobot_Rebuild_def Let_def)

lemma Rebuild_Engineer:
  "rtype r = kEngineer \<Longrightarrow>
     Rebuild r = r\<lparr>heat := 0, max_blood := 300, max_heat := 0, blood := 300\<rparr>"
  by (simp add: Rebuild_def EngineerRobot_Rebuild_def Let_def)

lemma filter_modify_first_id:
  assumes "find P xs = Some x" "\<And>y. P y \<Longrightarrow> GetId y = k" "\<And>y. GetId (f y) = GetId y"
  shows "filter (\<lambda>y. GetId y \<noteq> k) (modify_first P f xs) = filter (\<lambda>y. GetId y \<noteq> k) xs"
proof -
  from find_split[OF assms(1)] obtain pre post where
    h: "xs = pre @ x # post" "P x" "\<forall>f. modify_first P f xs = pre @ f x # post" by blast
  from h(2) assms(2) have "GetId x = k" by blast
  with assms(3)[of x] have "GetId (f x) = k" by simp
  with \<open>GetId x = k\<close> h(1) h(3) show ?thesis by simp
qed

lemma HandleCommandA_revive:
  assumes "FindLiveRobot tid rid m = None" "FindDeadRobot tid rid ty m = Some d"
  shows "HandleCommandA tid rid ty m =
           m\<lparr>live_robots := live_robots m @ [Rebuild d],
             dead_robots := filter (\<lambda>x. GetId x \<noteq> (tid, rid)) (dead_robots m)\<rparr>"
proof -
  have "filter (\<lambda>y. GetId y \<noteq> (tid, rid))
          (modify_first (\<lambda>x. GetId x = (tid, rid) \<and> GetType x = ty) Rebuild (dead_robots m))
        = filter (\<lambda>y. GetId y \<noteq> (tid, rid)) (dead_robots m)"
    using assms(2) by (intro filter_modify_first_id) (simp_all add: FindDeadRobot_def Rebuild_frame)
  with assms show ?thesis by (simp add: HandleCommandA_def Let_def)
qed

lemma HandleCommandA_fresh:
  assumes "FindLiveRobot tid rid m = None" "FindDeadRobot tid rid ty m = None"
  shows "HandleCommandA tid rid ty m =
           (case ty of
              kInfantry \<Rightarrow> m\<lparr>live_robots := live_robots m @ [InfantryRobot_new tid rid]\<rparr>
            | kEngineer \<Rightarrow> m\<lparr>live_robots := live_robots m @ [EngineerRobot_new tid rid]\<rparr>
            | kOther \<Rightarrow> m)"
  using assms by (simp add: HandleCommandA_def split: RobotType.splits)

lemma find_Some_mem: "find P xs = Some x \<Longrightarrow> x \<in> set xs \<and> P x"
  by (induction xs) (auto split: if_splits)

lemma decay_loop_eq:
  "decay_loop e rs dead out =
     (filter (\<lambda>r. \<not> IsDead r) (map (ChangeHeat e) rs),
      dead @ filter IsDead (map (ChangeHeat e) rs),
      out @ map GetId (filter IsDead (map (ChangeHeat e) rs)))"
  by (induction rs arbitrary: dead out) (simp_all add: Let_def)

lemma HandleTimeChange_eq:
  "HandleTimeChange curr_time m =
     (if curr_time \<le> last_time m then m
      else m\<lparr>live_robots := filter (\<lambda>r. \<not> IsDead r)
                 (map (ChangeHeat (curr_time - last_time m)) (live_robots m)),
             dead_robots := dead_robots m @ filter IsDead
                 (map (ChangeHeat (curr_time - last_time m)) (live_robots m)),
             last_time := curr_time,
             cout := cout m @ map GetId (filter IsDead
                 (map (ChangeHeat (curr_time - last_time m)) (live_robots m)))\<rparr>)"
  by (simp add: HandleTimeChange_def decay_loop_eq Let_def)

lemma last_time_A: "last_time (HandleCommandA tid rid ty m) = last_time m"
  by (simp add: HandleCommandA_def Let_def split: option.splits)

lemma last_time_F: "last_time (HandleCommandF tid rid d m) = last_time m"
  by (simp add: HandleCommandF_def Let_def split: option.splits)

lemma last_time_H: "last_time (HandleCommandH tid rid a m) = last_time m"
  by (simp add: HandleCommandH_def split: option.splits)

lemma last_time_U: "last_time (HandCommandU tid rid a m) = last_time m"
  by (simp add: HandCommandU_def split: option.splits)

lemma example_later_eq:
  "example_later =
     \<lparr>live_robots =
        [\<lparr>team_id = 1, robot_id = 2, heat = 20, max_heat = 100, level = 1,
          max_blood = 100, rtype = kInfantry, blood = 80\<rparr>,
         \<lparr>team_id = 3, robot_id = 1, heat = 0, max_heat = 0, level = 1,
          max_blood = 300, rtype = kEngineer, blood = 300\<rparr>],
      dead_robots =
        [\<lparr>team_id = 1, robot_id = 1, heat = 220, max_heat = 200, level = 2,
          max_blood = 150, rtype = kInfantry, blood = 0\<rparr>,
         \<lparr>team_id = 2, robot_id = 1, heat = 270, max_heat = 100, level = 1,
          max_blood = 100, rtype = kInfantry, blood = 0\<rparr>],
      last_time = 80, cout = [(1, 1), (2, 1)]\<rparr>"
  by (simp add: example_later_def example_run_eq HandleTimeChange_eq IsDead_def
      ChangeHeat_def GetId_def Let_def)

lemma FindLiveRobot_split:
  assumes "FindLiveRobot tid rid m = Some r"
  shows "\<exists>pre post. live_robots m = pre @ r # post \<and> (\<forall>y \<in> set pre. GetId y \<noteq> (tid, rid)) \<and>
           GetId r = (tid, rid) \<and>
           (\<forall>f. modify_first (\<lambda>x. GetId x = (tid, rid)) f (live_robots m) = pre @ f r # post)"
  using find_split[OF assms[unfolded FindLiveRobot_def]] by simp

lemma example_both_dead_eq:
  "example_both_dead =
     \<lparr>live_robots =
        [\<lparr>team_id = 1, robot_id = 2, heat = 20, max_heat = 100, level = 1,
          max_blood = 100, rtype = kInfantry, blood = 80\<rparr>,
         \<lparr>team_id = 3, robot_id = 1, heat = 0, max_heat = 0, level = 1,
          max_blood = 300, rtype = kEngineer, blood = 300\<rparr>],
      dead_robots =
        [\<lparr>team_id = 1, robot_id = 1, heat = 220, max_heat = 200, level = 2,
          max_blood = 150, rtype = kInfantry, blood = 0\<rparr>,
         \<lparr>team_id = 2, robot_id = 1, heat = 270, max_heat = 100, level = 1,
          max_blood = 100, rtype = kInfantry, blood = 0\<rparr>,
         \<lparr>team_id = 1, robot_id = 1, heat = 0, max_heat = 0, level = 1,
          max_blood = 300, rtype = kEngineer, blood = 0\<rparr>],
      last_time = 80, cout = [(1, 1), (2, 1), (1, 1)]\<rparr>"
  by (simp add: example_both_dead_def example_later_eq HandleCommandA_def HandleCommandF_def
      FindLiveRobot_def FindDeadRobot_def GetId_def GetType_def IsDead_def
      EngineerRobot_new_eq Let_def)

section \<open>Time advancement\<close>

text \<open>
  C4. \<open>HandleTimeChange curr_time\<close> returns the manager as it was when
  \<open>curr_time \<le> last_time\<close>: nothing decays and nothing is printed. Otherwise the
  elapsed time is \<open>curr_time - last_time\<close> (no wrap-around), every live robot decays
  by it, the robots whose health is then 0 leave \<open>live_robots\<close> and are appended to
  \<open>dead_robots\<close>, one event \<open>(team_id, robot_id)\<close> is printed for each of them, all in
  the order of \<open>live_robots\<close>, the survivors keep their order, and \<open>last_time\<close> is
  \<open>curr_time\<close>. So \<open>last_time\<close> never decreases: the four commands leave it alone.
\<close>

theorem C4_advance_time:
  "(curr_time \<le> last_time m \<longrightarrow> HandleTimeChange curr_time m = m) \<and>
   (last_time m < curr_time \<longrightarrow>
      unat (curr_time - last_time m) = unat curr_time - unat (last_time m) \<and>
      HandleTimeChange curr_time m =
        m\<lparr>live_robots := filter (\<lambda>r. blood r \<noteq> 0)
               (map (ChangeHeat (curr_time - last_time m)) (live_robots m)),
          dead_robots := dead_robots m @ filter (\<lambda>r. blood r = 0)
               (map (ChangeHeat (curr_time - last_time m)) (live_robots m)),
          last_time := curr_time,
          cout := cout m @ map GetId (filter (\<lambda>r. blood r = 0)
               (map (ChangeHeat (curr_time - last_time m)) (live_robots m)))\<rparr>) \<and>
   last_time m \<le> last_time (HandleTimeChange curr_time m) \<and>
   last_time (HandleCommandA tid rid ty m) = last_time m \<and>
   last_time (HandleCommandF tid rid p3 m) = last_time m \<and>
   last_time (HandleCommandH tid rid p3 m) = last_time m \<and>
   last_time (HandCommandU tid rid p3 m) = last_time m"
proof -
  have a: "curr_time \<le> last_time m \<longrightarrow> HandleTimeChange curr_time m = m"
    by (simp add: HandleTimeChange_eq)
  have b: "last_time m < curr_time \<longrightarrow>
      unat (curr_time - last_time m) = unat curr_time - unat (last_time m)"
    by (simp add: unat_sub word_less_nat_alt word_le_nat_alt)
  have c: "last_time m < curr_time \<longrightarrow> HandleTimeChange curr_time m =
        m\<lparr>live_robots := filter (\<lambda>r. blood r \<noteq> 0)
               (map (ChangeHeat (curr_time - last_time m)) (live_robots m)),
          dead_robots := dead_robots m @ filter (\<lambda>r. blood r = 0)
               (map (ChangeHeat (curr_time - last_time m)) (live_robots m)),
          last_time := curr_time,
          cout := cout m @ map GetId (filter (\<lambda>r. blood r = 0)
               (map (ChangeHeat (curr_time - last_time m)) (live_robots m)))\<rparr>"
    by (simp add: HandleTimeChange_eq IsDead_fun not_le[symmetric])
  have d: "last_time m \<le> last_time (HandleTimeChange curr_time m)"
    by (auto simp add: HandleTimeChange_eq)
  from a b c d show ?thesis
    by (simp add: last_time_A last_time_F last_time_H last_time_U)
qed

theorem C4_advance_time_witness:
  "(50::u32) \<le> last_time example_run \<and> HandleTimeChange 50 example_run = example_run \<and>
   last_time example_run < 80 \<and>
   map GetId (live_robots example_run) = [(1, 1), (1, 2), (2, 1), (3, 1)] \<and>
   map GetId (live_robots (HandleTimeChange 80 example_run)) = [(1, 2), (3, 1)] \<and>
   map GetId (dead_robots (HandleTimeChange 80 example_run)) = [(1, 1), (2, 1)] \<and>
   cout (HandleTimeChange 80 example_run) = [(1, 1), (2, 1)] \<and>
   last_time (HandleTimeChange 80 example_run) = 80"
  using C4_advance_time[of 50 example_run] C4_advance_time[of 80 example_run]
  by (simp add: example_run_eq ChangeHeat_def GetId_def Let_def)

section \<open>The command A\<close>

text \<open>
  C7. When some live robot has the pair \<open>(team_id, robot_id)\<close>, \<open>HandleCommandA\<close> for
  that pair returns the manager unchanged, whatever kind the command names: the live
  robots and their attributes, the dead robots, the clock and the output are all as
  before.
\<close>

theorem C7_add_live_noop:
  assumes "x \<in> set (live_robots m)" and "GetId x = (tid, rid)"
  shows "HandleCommandA tid rid ty m = m"
proof -
  from assms have "FindLiveRobot tid rid m \<noteq> None"
    by (auto simp: FindLiveRobot_def find_None_iff)
  then show ?thesis by (simp add: HandleCommandA_def)
qed

theorem C7_add_live_noop_witness:
  "GetType (hd (live_robots example_run)) = kInfantry \<and>
   hd (live_robots example_run) \<in> set (live_robots example_run) \<and>
   GetId (hd (live_robots example_run)) = (1, 1) \<and>
   HandleCommandA 1 1 kEngineer example_run = example_run \<and>
   HandleCommandA 1 1 kInfantry example_run = example_run"
  using C7_add_live_noop[of "hd (live_robots example_run)" example_run 1 1 kEngineer]
        C7_add_live_noop[of "hd (live_robots example_run)" example_run 1 1 kInfantry]
  by (simp add: example_run_eq GetId_def GetType_def)

text \<open>
  C3. When no live robot has the pair and \<open>FindDeadRobot\<close> finds a dead robot \<open>d\<close> of
  the kind the command names (Infantry or Engineer), \<open>HandleCommandA\<close> appends the
  rebuilt \<open>d\<close> to \<open>live_robots\<close> and erases from \<open>dead_robots\<close> every robot with the pair,
  of either kind. The rebuilt robot keeps its pair, kind and level, has heat 0 and
  health equal to its maximum, and its maxima are those of the level it died with
  (Engineer: 300 and 0).
\<close>

theorem C3_revival:
  assumes "FindLiveRobot tid rid m = None" and "FindDeadRobot tid rid ty m = Some d"
    and "ty \<noteq> kOther"
  shows "d \<in> set (dead_robots m) \<and> GetId d = (tid, rid) \<and> GetType d = ty \<and>
    HandleCommandA tid rid ty m =
      m\<lparr>live_robots := live_robots m @ [Rebuild d],
        dead_robots := filter (\<lambda>x. GetId x \<noteq> (tid, rid)) (dead_robots m)\<rparr> \<and>
    GetId (Rebuild d) = (tid, rid) \<and> GetType (Rebuild d) = ty \<and>
    level (Rebuild d) = level d \<and> heat (Rebuild d) = 0 \<and>
    blood (Rebuild d) = max_blood (Rebuild d) \<and>
    (max_blood (Rebuild d), max_heat (Rebuild d)) =
      (if ty = kEngineer then (300, 0)
       else if level d = 2 then (150, 200)
       else if level d = 3 then (250, 300)
       else (100, 100))"
proof -
  from find_Some_mem[OF assms(2)[unfolded FindDeadRobot_def]]
  have d: "d \<in> set (dead_robots m)" "GetId d = (tid, rid)" "GetType d = ty" by simp_all
  have caps: "heat (Rebuild d) = 0 \<and> blood (Rebuild d) = max_blood (Rebuild d) \<and>
    (max_blood (Rebuild d), max_heat (Rebuild d)) =
      (if ty = kEngineer then (300, 0)
       else if level d = 2 then (150, 200)
       else if level d = 3 then (250, 300)
       else (100, 100))"
  proof (cases ty)
    case kInfantry
    with d(3) have "rtype d = kInfantry" by (simp add: GetType_def)
    from Rebuild_Infantry[OF this] kInfantry show ?thesis by simp
  next
    case kEngineer
    with d(3) have "rtype d = kEngineer" by (simp add: GetType_def)
    from Rebuild_Engineer[OF this] kEngineer show ?thesis by simp
  next
    case kOther
    with assms(3) show ?thesis by simp
  qed
  from d caps HandleCommandA_revive[OF assms(1,2)] show ?thesis
    by (simp add: Rebuild_frame)
qed

theorem C3_revival_witness:
  "FindLiveRobot 1 1 example_both_dead = None \<and>
   FindDeadRobot 1 1 kInfantry example_both_dead =
     Some \<lparr>team_id = 1, robot_id = 1, heat = 220, max_heat = 200, level = 2,
           max_blood = 150, rtype = kInfantry, blood = 0\<rparr> \<and>
   kInfantry \<noteq> kOther \<and>
   map (\<lambda>r. (GetId r, GetType r)) (dead_robots example_both_dead) =
     [((1, 1), kInfantry), ((2, 1), kInfantry), ((1, 1), kEngineer)] \<and>
   live_robots (HandleCommandA 1 1 kInfantry example_both_dead) =
     live_robots example_both_dead @
       [\<lparr>team_id = 1, robot_id = 1, heat = 0, max_heat = 200, level = 2,
         max_blood = 150, rtype = kInfantry, blood = 150\<rparr>] \<and>
   map (\<lambda>r. (GetId r, GetType r)) (dead_robots (HandleCommandA 1 1 kInfantry example_both_dead)) =
     [((2, 1), kInfantry)]"
  using C3_revival[of 1 1 example_both_dead kInfantry
      "\<lparr>team_id = 1, robot_id = 1, heat = 220, max_heat = 200, level = 2,
        max_blood = 150, rtype = kInfantry, blood = 0\<rparr>"]
  by (simp add: example_both_dead_eq FindLiveRobot_def FindDeadRobot_def GetId_def GetType_def
      Rebuild_Infantry)

text \<open>
  C2 as the specification states it does not hold: in the example run the Infantry
  \<open>(1, 1)\<close> is dead, no live robot has the pair and no dead Engineer has it;
  \<open>HandleCommandA\<close> with kind Engineer appends a new Engineer to \<open>live_robots\<close> and
  leaves \<open>dead_robots\<close> as it was, the dead Infantry \<open>(1, 1)\<close> included.
\<close>

theorem C2_counterexample:
  "FindLiveRobot 1 1 example_later = None \<and>
   dead_robots example_later =
     [\<lparr>team_id = 1, robot_id = 1, heat = 220, max_heat = 200, level = 2,
       max_blood = 150, rtype = kInfantry, blood = 0\<rparr>,
      \<lparr>team_id = 2, robot_id = 1, heat = 270, max_heat = 100, level = 1,
       max_blood = 100, rtype = kInfantry, blood = 0\<rparr>] \<and>
   live_robots (HandleCommandA 1 1 kEngineer example_later) =
     live_robots example_later @
       [\<lparr>team_id = 1, robot_id = 1, heat = 0, max_heat = 0, level = 1,
         max_blood = 300, rtype = kEngineer, blood = 300\<rparr>] \<and>
   dead_robots (HandleCommandA 1 1 kEngineer example_later) =
     [\<lparr>team_id = 1, robot_id = 1, heat = 220, max_heat = 200, level = 2,
       max_blood = 150, rtype = kInfantry, blood = 0\<rparr>,
      \<lparr>team_id = 2, robot_id = 1, heat = 270, max_heat = 100, level = 1,
       max_blood = 100, rtype = kInfantry, blood = 0\<rparr>]"
  by (simp add: example_later_eq HandleCommandA_def FindLiveRobot_def FindDeadRobot_def
      GetId_def GetType_def EngineerRobot_new_eq)

text \<open>
  C2, amended. Let a dead Infantry have the pair and no live robot have it. If no dead
  Engineer has the pair, \<open>HandleCommandA\<close> with kind Engineer appends a newly
  constructed Engineer (health 300, heat 0) to \<open>live_robots\<close> and leaves \<open>dead_robots\<close>
  unchanged, so the dead Infantry stays there. If a dead Engineer has the pair, that
  Engineer is rebuilt and appended to \<open>live_robots\<close>, and every dead robot with the
  pair, the Infantry included, is erased from \<open>dead_robots\<close>.
\<close>

theorem C2_add_engineer_over_dead_infantry:
  assumes "FindLiveRobot tid rid m = None"
    and "d \<in> set (dead_robots m)" and "GetId d = (tid, rid)" and "GetType d = kInfantry"
  shows "(FindDeadRobot tid rid kEngineer m = None \<longrightarrow>
            HandleCommandA tid rid kEngineer m =
              m\<lparr>live_robots := live_robots m @
                   [\<lparr>team_id = tid, robot_id = rid, heat = 0, max_heat = 0, level = 1,
                     max_blood = 300, rtype = kEngineer, blood = 300\<rparr>]\<rparr> \<and>
            dead_robots (HandleCommandA tid rid kEngineer m) = dead_robots m \<and>
            d \<in> set (dead_robots (HandleCommandA tid rid kEngineer m))) \<and>
         (\<forall>e. FindDeadRobot tid rid kEngineer m = Some e \<longrightarrow>
            HandleCommandA tid rid kEngineer m =
              m\<lparr>live_robots := live_robots m @ [Rebuild e],
                dead_robots := filter (\<lambda>x. GetId x \<noteq> (tid, rid)) (dead_robots m)\<rparr> \<and>
            d \<notin> set (dead_robots (HandleCommandA tid rid kEngineer m)))"
proof -
  have fresh: "FindDeadRobot tid rid kEngineer m = None \<longrightarrow>
            HandleCommandA tid rid kEngineer m =
              m\<lparr>live_robots := live_robots m @
                   [\<lparr>team_id = tid, robot_id = rid, heat = 0, max_heat = 0, level = 1,
                     max_blood = 300, rtype = kEngineer, blood = 300\<rparr>]\<rparr>"
    using HandleCommandA_fresh[OF assms(1), of kEngineer] by (simp add: EngineerRobot_new_eq)
  have revive: "\<forall>e. FindDeadRobot tid rid kEngineer m = Some e \<longrightarrow>
            HandleCommandA tid rid kEngineer m =
              m\<lparr>live_robots := live_robots m @ [Rebuild e],
                dead_robots := filter (\<lambda>x. GetId x \<noteq> (tid, rid)) (dead_robots m)\<rparr>"
    using HandleCommandA_revive[OF assms(1)] by blast
  from fresh revive assms(2,3) show ?thesis by auto
qed

theorem C2_add_engineer_over_dead_infantry_witness:
  "FindLiveRobot 1 1 example_later = None \<and>
   hd (dead_robots example_later) \<in> set (dead_robots example_later) \<and>
   GetId (hd (dead_robots example_later)) = (1, 1) \<and>
   GetType (hd (dead_robots example_later)) = kInfantry \<and>
   FindDeadRobot 1 1 kEngineer example_later = None \<and>
   hd (dead_robots example_later) \<in> set (dead_robots (HandleCommandA 1 1 kEngineer example_later)) \<and>
   FindLiveRobot 1 1 example_both_dead = None \<and>
   hd (dead_robots example_both_dead) \<in> set (dead_robots example_both_dead) \<and>
   GetId (hd (dead_robots example_both_dead)) = (1, 1) \<and>
   GetType (hd (dead_robots example_both_dead)) = kInfantry \<and>
   FindDeadRobot 1 1 kEngineer example_both_dead =
     Some \<lparr>team_id = 1, robot_id = 1, heat = 0, max_heat = 0, level = 1,
           max_blood = 300, rtype = kEngineer, blood = 0\<rparr> \<and>
   hd (dead_robots example_both_dead) \<notin> set (dead_robots (HandleCommandA 1 1 kEngineer example_both_dead))"
  using C2_add_engineer_over_dead_infantry[of 1 1 example_later "hd (dead_robots example_later)"]
        C2_add_engineer_over_dead_infantry[of 1 1 example_both_dead
          "hd (dead_robots example_both_dead)"]
  by (simp add: example_later_eq example_both_dead_eq FindLiveRobot_def FindDeadRobot_def
      GetId_def GetType_def)

section \<open>The command U\<close>

text \<open>
  C6. \<open>Upgrade\<close> with target \<open>T\<close> on a robot of level \<open>L\<close> succeeds exactly when
  \<open>L < T\<close> and \<open>T \<le> 3\<close>. On success the level is \<open>T\<close>, heat is 0, and health and the two
  maxima are those of level \<open>T\<close> (100/100, 150/200, 250/300); on failure the robot is
  unchanged. \<open>HandCommandU\<close> addressed to a live Infantry applies \<open>Upgrade\<close> to that
  robot in place and changes nothing else. At level 2 the targets 2 and 1 are refused
  and the target 3 gives level 3 with health 250, heat 0 and maxima 250 and 300.
\<close>

theorem C6_upgrade:
  "(fst (Upgrade T r) \<longleftrightarrow> level r < T \<and> T \<le> 3) \<and>
   (level r < T \<and> T \<le> 3 \<longrightarrow>
      snd (Upgrade T r) =
        r\<lparr>level := T, heat := 0,
          max_blood := (if T = 1 then 100 else if T = 2 then 150 else 250),
          max_heat := (if T = 1 then 100 else if T = 2 then 200 else 300),
          blood := (if T = 1 then 100 else if T = 2 then 150 else 250)\<rparr>) \<and>
   (\<not> (level r < T \<and> T \<le> 3) \<longrightarrow> snd (Upgrade T r) = r) \<and>
   (FindLiveRobot tid rid m = Some r \<and> GetType r = kInfantry \<longrightarrow>
      (\<exists>pre post. live_robots m = pre @ r # post \<and>
         (\<forall>y \<in> set pre. GetId y \<noteq> (tid, rid)) \<and>
         HandCommandU tid rid T m = m\<lparr>live_robots := pre @ snd (Upgrade T r) # post\<rparr>)) \<and>
   (level r = 2 \<longrightarrow>
      Upgrade 2 r = (False, r) \<and> Upgrade 1 r = (False, r) \<and>
      Upgrade 3 r = (True, r\<lparr>level := 3, heat := 0, max_blood := 250, max_heat := 300,
                             blood := 250\<rparr>))"
proof -
  have a: "fst (Upgrade T r) \<longleftrightarrow> level r < T \<and> T \<le> 3"
    by (simp add: Upgrade_def)
  have T123: "T = 1 \<or> T = 2 \<or> T = 3" if "level r < T" "T \<le> 3"
  proof -
    from that(1) have "0 < unat T" by (simp add: word_less_nat_alt)
    moreover from that(2) have "unat T \<le> 3" by (simp add: word_le_nat_alt)
    ultimately have "unat T = 1 \<or> unat T = 2 \<or> unat T = 3" by arith
    then show ?thesis unfolding word_unat_eq_iff[of T] by simp
  qed
  have b: "level r < T \<and> T \<le> 3 \<longrightarrow>
      snd (Upgrade T r) =
        r\<lparr>level := T, heat := 0,
          max_blood := (if T = 1 then 100 else if T = 2 then 150 else 250),
          max_heat := (if T = 1 then 100 else if T = 2 then 200 else 300),
          blood := (if T = 1 then 100 else if T = 2 then 150 else 250)\<rparr>"
  proof
    assume h: "level r < T \<and> T \<le> 3"
    with T123 have "T = 1 \<or> T = 2 \<or> T = 3" by blast
    with h show "snd (Upgrade T r) =
        r\<lparr>level := T, heat := 0,
          max_blood := (if T = 1 then 100 else if T = 2 then 150 else 250),
          max_heat := (if T = 1 then 100 else if T = 2 then 200 else 300),
          blood := (if T = 1 then 100 else if T = 2 then 150 else 250)\<rparr>"
      by (auto simp: Upgrade_def InfantryRobot_Rebuild_def Let_def)
  qed
  have c: "\<not> (level r < T \<and> T \<le> 3) \<longrightarrow> snd (Upgrade T r) = r"
    by (simp add: Upgrade_def)
  have d: "FindLiveRobot tid rid m = Some r \<and> GetType r = kInfantry \<longrightarrow>
      (\<exists>pre post. live_robots m = pre @ r # post \<and>
         (\<forall>y \<in> set pre. GetId y \<noteq> (tid, rid)) \<and>
         HandCommandU tid rid T m = m\<lparr>live_robots := pre @ snd (Upgrade T r) # post\<rparr>)"
  proof
    assume h: "FindLiveRobot tid rid m = Some r \<and> GetType r = kInfantry"
    from FindLiveRobot_split[of tid rid m r] h obtain pre post where
      p: "live_robots m = pre @ r # post" "\<forall>y \<in> set pre. GetId y \<noteq> (tid, rid)"
         "\<forall>f. modify_first (\<lambda>x. GetId x = (tid, rid)) f (live_robots m) = pre @ f r # post"
      by blast
    from h p(3) have "HandCommandU tid rid T m = m\<lparr>live_robots := pre @ snd (Upgrade T r) # post\<rparr>"
      by (simp add: HandCommandU_def GetType_def)
    with p(1,2) show "\<exists>pre post. live_robots m = pre @ r # post \<and>
         (\<forall>y \<in> set pre. GetId y \<noteq> (tid, rid)) \<and>
         HandCommandU tid rid T m = m\<lparr>live_robots := pre @ snd (Upgrade T r) # post\<rparr>"
      by blast
  qed
  have e: "level r = 2 \<longrightarrow>
      Upgrade 2 r = (False, r) \<and> Upgrade 1 r = (False, r) \<and>
      Upgrade 3 r = (True, r\<lparr>level := 3, heat := 0, max_blood := 250, max_heat := 300,
                             blood := 250\<rparr>)"
    by (simp add: Upgrade_def InfantryRobot_Rebuild_def Let_def)
  from a b c d e show ?thesis by blast
qed

theorem C6_upgrade_witness:
  "FindLiveRobot 1 1 example_run =
     Some \<lparr>team_id = 1, robot_id = 1, heat = 250, max_heat = 200, level = 2,
           max_blood = 150, rtype = kInfantry, blood = 30\<rparr> \<and>
   HandCommandU 1 1 2 example_run = example_run \<and>
   HandCommandU 1 1 1 example_run = example_run \<and>
   live_robots (HandCommandU 1 1 3 example_run) =
     \<lparr>team_id = 1, robot_id = 1, heat = 0, max_heat = 300, level = 3,
      max_blood = 250, rtype = kInfantry, blood = 250\<rparr> # tl (live_robots example_run)"
proof -
  let ?r = "\<lparr>team_id = 1, robot_id = 1, heat = 250, max_heat = 200, level = 2,
             max_blood = 150, rtype = kInfantry, blood = 30 :: u32\<rparr>"
  have f: "FindLiveRobot 1 1 example_run = Some ?r"
    by (simp add: example_run_eq FindLiveRobot_def GetId_def)
  have l: "level ?r = 2" and k: "GetType ?r = kInfantry"
    by (simp_all add: GetType_def)
  have u: "Upgrade 2 ?r = (False, ?r) \<and> Upgrade 1 ?r = (False, ?r) \<and>
      Upgrade 3 ?r = (True, ?r\<lparr>level := 3, heat := 0, max_blood := 250, max_heat := 300,
                              blood := 250\<rparr>)"
    using C6_upgrade[of 2 ?r 1 1 example_run] l by blast
  have h: "\<exists>pre post. live_robots example_run = pre @ ?r # post \<and>
         (\<forall>y \<in> set pre. GetId y \<noteq> (1, 1)) \<and>
         HandCommandU 1 1 T example_run =
           example_run\<lparr>live_robots := pre @ snd (Upgrade T ?r) # post\<rparr>" for T
    using C6_upgrade[of T ?r 1 1 example_run] f k by blast
  have pre: "pre = [] \<and> post = tl (live_robots example_run)"
    if "live_robots example_run = pre @ ?r # post" "\<forall>y \<in> set pre. GetId y \<noteq> (1, 1)"
    for pre post
  proof (cases pre)
    case Nil
    with that(1) show ?thesis by simp
  next
    case (Cons a as)
    with that(1) have "a = ?r" by (simp add: example_run_eq)
    with that(2) Cons show ?thesis by (simp add: GetId_def)
  qed
  have g: "HandCommandU 1 1 T example_run =
      example_run\<lparr>live_robots := snd (Upgrade T ?r) # tl (live_robots example_run)\<rparr>" for T
    using h[of T] pre by auto
  have same: "example_run\<lparr>live_robots := ?r # tl (live_robots example_run)\<rparr> = example_run"
    by (simp add: example_run_eq)
  from f g[of 2] g[of 1] g[of 3] u same show ?thesis by simp
qed

section \<open>Invariants of the reachable states\<close>

lemma set_modify_first: "set (modify_first P f xs) \<subseteq> set xs \<union> f ` {x \<in> set xs. P x}"
  by (induction xs) auto

lemma map_modify_first: "(\<And>x. g (f x) = g x) \<Longrightarrow> map g (modify_first P f xs) = map g xs"
  by (induction xs) auto

lemma ChangeHeat_GetId: "GetId (ChangeHeat e r) = GetId r"
  by (simp add: GetId_def ChangeHeat_frame)

lemma ChangeHeat_GetType: "GetType (ChangeHeat e r) = GetType r"
  by (simp add: GetType_def ChangeHeat_frame)

lemma ChangeHeat_wf: "robot_wf r \<Longrightarrow> robot_wf (ChangeHeat e r)"
  by (simp add: robot_wf_def engineer_pinned_def ChangeHeat_GetType ChangeHeat_frame ChangeHeat_heat)

lemma Rebuild_wf: "GetType r \<noteq> kOther \<Longrightarrow> robot_wf (Rebuild r)"
  by (cases "rtype r")
     (simp_all add: robot_wf_def engineer_pinned_def GetType_def Rebuild_Infantry Rebuild_Engineer)

lemma Rebuild_alive: "GetType r \<noteq> kOther \<Longrightarrow> \<not> IsDead (Rebuild r)"
  by (cases "rtype r")
     (simp_all add: IsDead_def GetType_def Rebuild_Infantry Rebuild_Engineer)

lemma new_wf: "robot_wf (InfantryRobot_new tid rid)" "robot_wf (EngineerRobot_new tid rid)"
  by (simp_all add: robot_wf_def engineer_pinned_def GetType_def InfantryRobot_new_eq
      EngineerRobot_new_eq)

lemma new_alive: "\<not> IsDead (InfantryRobot_new tid rid)" "\<not> IsDead (EngineerRobot_new tid rid)"
  by (simp_all add: IsDead_def InfantryRobot_new_eq EngineerRobot_new_eq)

lemma new_id:
  "GetId (InfantryRobot_new tid rid) = (tid, rid)" "GetId (EngineerRobot_new tid rid) = (tid, rid)"
  "GetType (InfantryRobot_new tid rid) = kInfantry" "GetType (EngineerRobot_new tid rid) = kEngineer"
  by (simp_all add: GetId_def GetType_def InfantryRobot_new_eq EngineerRobot_new_eq)

lemma inv_new: "manager_inv RobotManager_new"
  by (simp add: manager_inv_def live_distinct_def live_alive_def kind_disjoint_def
      RobotManager_new_def)

lemma inv_time:
  assumes "manager_inv m"
  shows "manager_inv (HandleTimeChange curr_time m)"
proof (cases "curr_time \<le> last_time m")
  case True
  with assms show ?thesis by (simp add: HandleTimeChange_eq)
next
  case False
  define e where "e = curr_time - last_time m"
  define rs where "rs = map (ChangeHeat e) (live_robots m)"
  have lv: "live_robots (HandleTimeChange curr_time m) = filter (\<lambda>r. \<not> IsDead r) rs"
    and dd: "dead_robots (HandleTimeChange curr_time m) = dead_robots m @ filter IsDead rs"
    using False by (simp_all add: HandleTimeChange_eq e_def rs_def)
  from assms have d: "distinct (map GetId (live_robots m))"
    and k: "\<forall>l \<in> set (live_robots m). \<forall>d \<in> set (dead_robots m).
              \<not> (GetId l = GetId d \<and> GetType l = GetType d)"
    and w: "\<forall>r \<in> set (live_robots m) \<union> set (dead_robots m). robot_wf r"
    by (simp_all add: manager_inv_def live_distinct_def kind_disjoint_def)
  have ids: "map GetId rs = map GetId (live_robots m)"
    by (simp add: rs_def ChangeHeat_GetId)
  with d have drs: "distinct (map GetId rs)" by simp
  then have 1: "live_distinct (HandleTimeChange curr_time m)"
    by (simp add: live_distinct_def lv distinct_map_filter)
  have 2: "live_alive (HandleTimeChange curr_time m)"
    by (simp add: live_alive_def lv)
  have 3: "kind_disjoint (HandleTimeChange curr_time m)"
    unfolding kind_disjoint_def
  proof (intro ballI notI)
    fix l x
    assume l: "l \<in> set (live_robots (HandleTimeChange curr_time m))"
      and x: "x \<in> set (dead_robots (HandleTimeChange curr_time m))"
      and eq: "GetId l = GetId x \<and> GetType l = GetType x"
    from l lv have lrs: "l \<in> set rs" and la: "\<not> IsDead l" by simp_all
    from lrs obtain l0 where l0: "l0 \<in> set (live_robots m)" "l = ChangeHeat e l0"
      by (auto simp: rs_def)
    from x dd consider "x \<in> set (dead_robots m)" | "x \<in> set rs" "IsDead x" by auto
    then show False
    proof cases
      case 1
      from l0 eq have "GetId l0 = GetId x \<and> GetType l0 = GetType x"
        by (simp add: ChangeHeat_GetId ChangeHeat_GetType)
      with k l0(1) 1 show False by blast
    next
      case 2
      from drs have "inj_on GetId (set rs)" by (simp add: distinct_map)
      with lrs 2(1) eq have "l = x" by (auto dest: inj_onD)
      with la 2(2) show False by simp
    qed
  qed
  have 4: "\<forall>r \<in> set (live_robots (HandleTimeChange curr_time m)) \<union>
                 set (dead_robots (HandleTimeChange curr_time m)). robot_wf r"
    using w by (auto simp: lv dd rs_def ChangeHeat_wf)
  from 1 2 3 4 show ?thesis by (simp add: manager_inv_def)
qed

lemma find_None_id:
  "FindLiveRobot tid rid m = None \<longleftrightarrow> (\<forall>x \<in> set (live_robots m). GetId x \<noteq> (tid, rid))"
  by (auto simp add: FindLiveRobot_def find_None_iff)

lemma inv_A:
  assumes "manager_inv m"
  shows "manager_inv (HandleCommandA tid rid ty m)"
proof (cases "FindLiveRobot tid rid m")
  case (Some a)
  with assms show ?thesis by (simp add: HandleCommandA_def)
next
  case None
  note nl = None[unfolded find_None_id]
  from assms have d: "distinct (map GetId (live_robots m))"
    and al: "\<forall>l \<in> set (live_robots m). \<not> IsDead l"
    and k: "\<forall>l \<in> set (live_robots m). \<forall>d \<in> set (dead_robots m).
              \<not> (GetId l = GetId d \<and> GetType l = GetType d)"
    and w: "\<forall>r \<in> set (live_robots m) \<union> set (dead_robots m). robot_wf r"
    by (simp_all add: manager_inv_def live_distinct_def kind_disjoint_def live_alive_def)
  show ?thesis
  proof (cases "FindDeadRobot tid rid ty m")
    case (Some x)
    from find_Some_mem[OF Some[unfolded FindDeadRobot_def]]
    have x: "x \<in> set (dead_robots m)" "GetId x = (tid, rid)" "GetType x = ty" by simp_all
    from x(1) w have "robot_wf x" by blast
    then have nk: "GetType x \<noteq> kOther" by (simp add: robot_wf_def)
    have eq: "HandleCommandA tid rid ty m =
           m\<lparr>live_robots := live_robots m @ [Rebuild x],
             dead_robots := filter (\<lambda>y. GetId y \<noteq> (tid, rid)) (dead_robots m)\<rparr>"
      by (rule HandleCommandA_revive[OF None Some])
    have 1: "live_distinct (HandleCommandA tid rid ty m)"
      using d nl x(2) by (auto simp: eq live_distinct_def Rebuild_frame)
    have 2: "live_alive (HandleCommandA tid rid ty m)"
      using al Rebuild_alive[OF nk] by (auto simp: eq live_alive_def)
    have 3: "kind_disjoint (HandleCommandA tid rid ty m)"
      using k x(2) by (auto simp: eq kind_disjoint_def Rebuild_frame)
    have 4: "\<forall>r \<in> set (live_robots (HandleCommandA tid rid ty m)) \<union>
                 set (dead_robots (HandleCommandA tid rid ty m)). robot_wf r"
      using w Rebuild_wf[OF nk] by (auto simp: eq)
    from 1 2 3 4 show ?thesis by (simp add: manager_inv_def)
  next
    case nd: None
    have nd': "\<forall>y \<in> set (dead_robots m). \<not> (GetId y = (tid, rid) \<and> GetType y = ty)"
      using nd by (simp add: FindDeadRobot_def find_None_iff)
    show ?thesis
    proof (cases ty)
      case kInfantry
      note eq = HandleCommandA_fresh[OF None nd, unfolded kInfantry, simplified]
      have 1: "live_distinct (HandleCommandA tid rid ty m)"
        using d nl by (auto simp: eq kInfantry live_distinct_def new_id)
      have 2: "live_alive (HandleCommandA tid rid ty m)"
        using al by (auto simp: eq kInfantry live_alive_def new_alive)
      have 3: "kind_disjoint (HandleCommandA tid rid ty m)"
        using k nd' by (auto simp: eq kInfantry kind_disjoint_def new_id)
      have 4: "\<forall>r \<in> set (live_robots (HandleCommandA tid rid ty m)) \<union>
                 set (dead_robots (HandleCommandA tid rid ty m)). robot_wf r"
        using w by (auto simp: eq kInfantry new_wf)
      from 1 2 3 4 show ?thesis by (simp add: manager_inv_def)
    next
      case kEngineer
      note eq = HandleCommandA_fresh[OF None nd, unfolded kEngineer, simplified]
      have 1: "live_distinct (HandleCommandA tid rid ty m)"
        using d nl by (auto simp: eq kEngineer live_distinct_def new_id)
      have 2: "live_alive (HandleCommandA tid rid ty m)"
        using al by (auto simp: eq kEngineer live_alive_def new_alive)
      have 3: "kind_disjoint (HandleCommandA tid rid ty m)"
        using k nd' by (auto simp: eq kEngineer kind_disjoint_def new_id)
      have 4: "\<forall>r \<in> set (live_robots (HandleCommandA tid rid ty m)) \<union>
                 set (dead_robots (HandleCommandA tid rid ty m)). robot_wf r"
        using w by (auto simp: eq kEngineer new_wf)
      from 1 2 3 4 show ?thesis by (simp add: manager_inv_def)
    next
      case kOther
      with assms HandleCommandA_fresh[OF None nd] show ?thesis by simp
    qed
  qed
qed


lemma HandleCommandF_eq:
  assumes d: "live_distinct m" and fl: "FindLiveRobot tid rid m = Some r" and al: "\<not> IsDead r"
  shows "\<exists>pre post. live_robots m = pre @ r # post \<and>
           (\<forall>y \<in> set pre \<union> set post. GetId y \<noteq> (tid, rid)) \<and>
           HandleCommandF tid rid damage m =
             (if blood r \<le> damage
              then m\<lparr>live_robots := pre @ post,
                     dead_robots := dead_robots m @ [r\<lparr>blood := 0\<rparr>],
                     cout := cout m @ [(tid, rid)]\<rparr>
              else m\<lparr>live_robots := pre @ r\<lparr>blood := blood r - damage\<rparr> # post\<rparr>)"
proof -
  from FindLiveRobot_split[OF fl] obtain pre post where
    p: "live_robots m = pre @ r # post" "\<forall>y \<in> set pre. GetId y \<noteq> (tid, rid)"
       "GetId r = (tid, rid)"
       "\<forall>f. modify_first (\<lambda>x. GetId x = (tid, rid)) f (live_robots m) = pre @ f r # post"
    by blast
  have q: "\<forall>y \<in> set post. GetId y \<noteq> (tid, rid)"
  proof
    fix y
    assume "y \<in> set post"
    then have "GetId y \<in> GetId ` set post" by (rule imageI)
    moreover from d p(1) have "GetId r \<notin> GetId ` set post"
      by (simp add: live_distinct_def)
    ultimately show "GetId y \<noteq> (tid, rid)" using p(3) by auto
  qed
  from p(2) q have fil: "filter (\<lambda>x. GetId x \<noteq> (tid, rid)) pre = pre"
      "filter (\<lambda>x. GetId x \<noteq> (tid, rid)) post = post"
    by (simp_all add: filter_id_conv)
  have id': "GetId (r\<lparr>blood := b\<rparr>) = (tid, rid)" for b
    using p(3) by (simp add: GetId_def)
  have "HandleCommandF tid rid damage m =
             (if blood r \<le> damage
              then m\<lparr>live_robots := pre @ post,
                     dead_robots := dead_robots m @ [r\<lparr>blood := 0\<rparr>],
                     cout := cout m @ [(tid, rid)]\<rparr>
              else m\<lparr>live_robots := pre @ r\<lparr>blood := blood r - damage\<rparr> # post\<rparr>)"
  proof (cases "blood r \<le> damage")
    case True
    then have "\<not> damage < blood r" by simp
    with True al fl p(4) show ?thesis
      by (simp add: HandleCommandF_def Let_def IsDead_def id' fil)
  next
    case False
    then have lt: "damage < blood r" by simp
    then have "blood r - damage \<noteq> 0" by auto
    with False lt al fl p(4) show ?thesis
      by (simp add: HandleCommandF_def Let_def IsDead_def)
  qed
  with p(1,2) q show ?thesis by blast
qed

lemma inv_F:
  assumes "manager_inv m"
  shows "manager_inv (HandleCommandF tid rid damage m)"
proof (cases "FindLiveRobot tid rid m")
  case None
  with assms show ?thesis by (simp add: HandleCommandF_def)
next
  case (Some r)
  from assms have d: "distinct (map GetId (live_robots m))" and ld: "live_distinct m"
    and al: "\<forall>l \<in> set (live_robots m). \<not> IsDead l"
    and k: "\<forall>l \<in> set (live_robots m). \<forall>d \<in> set (dead_robots m).
              \<not> (GetId l = GetId d \<and> GetType l = GetType d)"
    and w: "\<forall>r \<in> set (live_robots m) \<union> set (dead_robots m). robot_wf r"
    by (simp_all add: manager_inv_def live_distinct_def kind_disjoint_def live_alive_def)
  from find_Some_mem[OF Some[unfolded FindLiveRobot_def]] have rl: "r \<in> set (live_robots m)"
    by simp
  with al have ra: "\<not> IsDead r" by blast
  from HandleCommandF_eq[OF ld Some ra, of damage] obtain pre post where
    p: "live_robots m = pre @ r # post" "\<forall>y \<in> set pre \<union> set post. GetId y \<noteq> (tid, rid)"
       "HandleCommandF tid rid damage m =
             (if blood r \<le> damage
              then m\<lparr>live_robots := pre @ post,
                     dead_robots := dead_robots m @ [r\<lparr>blood := 0\<rparr>],
                     cout := cout m @ [(tid, rid)]\<rparr>
              else m\<lparr>live_robots := pre @ r\<lparr>blood := blood r - damage\<rparr> # post\<rparr>)"
    by blast
  from find_Some_mem[OF Some[unfolded FindLiveRobot_def]] have rid: "GetId r = (tid, rid)"
    by simp
  have fr: "GetId (r\<lparr>blood := b\<rparr>) = GetId r" "GetType (r\<lparr>blood := b\<rparr>) = GetType r" for b
    by (simp_all add: GetId_def GetType_def)
  have wf': "robot_wf (r\<lparr>blood := b\<rparr>)" for b
    using w rl by (auto simp: robot_wf_def engineer_pinned_def GetType_def)
  show ?thesis
  proof (cases "blood r \<le> damage")
    case True
    with p(3) have eq: "HandleCommandF tid rid damage m =
        m\<lparr>live_robots := pre @ post, dead_robots := dead_robots m @ [r\<lparr>blood := 0\<rparr>],
          cout := cout m @ [(tid, rid)]\<rparr>" by simp
    have 1: "live_distinct (HandleCommandF tid rid damage m)"
      using d by (simp add: eq live_distinct_def p(1))
    have 2: "live_alive (HandleCommandF tid rid damage m)"
      using al by (auto simp: eq live_alive_def p(1))
    have 3: "kind_disjoint (HandleCommandF tid rid damage m)"
      unfolding kind_disjoint_def
    proof (intro ballI notI)
      fix l x
      assume l: "l \<in> set (live_robots (HandleCommandF tid rid damage m))"
        and x: "x \<in> set (dead_robots (HandleCommandF tid rid damage m))"
        and e: "GetId l = GetId x \<and> GetType l = GetType x"
      from l have l1: "l \<in> set pre \<union> set post" by (simp add: eq)
      then have l2: "l \<in> set (live_robots m)" by (auto simp: p(1))
      from l1 p(2) have l3: "GetId l \<noteq> (tid, rid)" by blast
      from x consider "x \<in> set (dead_robots m)" | "x = r\<lparr>blood := 0\<rparr>" by (auto simp: eq)
      then show False
      proof cases
        case 1
        with k l2 e show False by blast
      next
        case 2
        with e l3 rid show False by (simp add: fr)
      qed
    qed
    have 4: "\<forall>r \<in> set (live_robots (HandleCommandF tid rid damage m)) \<union>
                 set (dead_robots (HandleCommandF tid rid damage m)). robot_wf r"
      using w wf' by (auto simp: eq p(1))
    from 1 2 3 4 show ?thesis by (simp add: manager_inv_def)
  next
    case False
    with p(3) have eq: "HandleCommandF tid rid damage m =
        m\<lparr>live_robots := pre @ r\<lparr>blood := blood r - damage\<rparr> # post\<rparr>" by simp
    from False have nz: "blood r - damage \<noteq> 0" by auto
    have 1: "live_distinct (HandleCommandF tid rid damage m)"
      using d by (simp add: eq live_distinct_def p(1) fr)
    have 2: "live_alive (HandleCommandF tid rid damage m)"
      using al nz by (auto simp: eq live_alive_def p(1) IsDead_def)
    have 3: "kind_disjoint (HandleCommandF tid rid damage m)"
      using k by (auto simp: eq kind_disjoint_def p(1) fr)
    have 4: "\<forall>r \<in> set (live_robots (HandleCommandF tid rid damage m)) \<union>
                 set (dead_robots (HandleCommandF tid rid damage m)). robot_wf r"
      using w wf' by (auto simp: eq p(1))
    from 1 2 3 4 show ?thesis by (simp add: manager_inv_def)
  qed
qed

text \<open>A write to one live robot that keeps its pair and kind, and keeps it alive and well formed.\<close>

lemma inv_modify:
  assumes inv: "manager_inv m"
    and fr: "\<And>x. GetId (f x) = GetId x" "\<And>x. GetType (f x) = GetType x"
    and keep: "\<And>x. \<not> IsDead x \<Longrightarrow> robot_wf x \<Longrightarrow> \<not> IsDead (f x) \<and> robot_wf (f x)"
  shows "manager_inv (m\<lparr>live_robots := modify_first P f (live_robots m)\<rparr>)"
proof -
  let ?m' = "m\<lparr>live_robots := modify_first P f (live_robots m)\<rparr>"
  from inv have d: "distinct (map GetId (live_robots m))"
    and al: "\<forall>l \<in> set (live_robots m). \<not> IsDead l"
    and k: "\<forall>l \<in> set (live_robots m). \<forall>d \<in> set (dead_robots m).
              \<not> (GetId l = GetId d \<and> GetType l = GetType d)"
    and w: "\<forall>r \<in> set (live_robots m) \<union> set (dead_robots m). robot_wf r"
    by (simp_all add: manager_inv_def live_distinct_def kind_disjoint_def live_alive_def)
  have src: "l \<in> set (live_robots m) \<or> (\<exists>x \<in> set (live_robots m). l = f x)"
    if "l \<in> set (modify_first P f (live_robots m))" for l
    using that set_modify_first[of P f "live_robots m"] by auto
  have 1: "live_distinct ?m'"
    using d by (simp add: live_distinct_def map_modify_first[of GetId f, OF fr(1)])
  have 2: "live_alive ?m'"
    using al w keep src by (fastforce simp: live_alive_def)
  have 3: "kind_disjoint ?m'"
    unfolding kind_disjoint_def
  proof (intro ballI notI)
    fix l x
    assume l: "l \<in> set (live_robots ?m')" and x: "x \<in> set (dead_robots ?m')"
      and e: "GetId l = GetId x \<and> GetType l = GetType x"
    from l src have "\<exists>l0 \<in> set (live_robots m). GetId l0 = GetId l \<and> GetType l0 = GetType l"
      using fr by fastforce
    with k x e show False by auto
  qed
  have 4: "\<forall>r \<in> set (live_robots ?m') \<union> set (dead_robots ?m'). robot_wf r"
    using al w keep src by fastforce
  from 1 2 3 4 show ?thesis by (simp add: manager_inv_def)
qed

lemma inv_H:
  assumes "manager_inv m"
  shows "manager_inv (HandleCommandH tid rid add_heat m)"
proof -
  have "manager_inv (m\<lparr>live_robots := modify_first (\<lambda>x. GetId x = (tid, rid))
           (\<lambda>x. if rtype x = kInfantry then AddHeat add_heat x else x) (live_robots m)\<rparr>)"
    using assms
    by (rule inv_modify)
       (auto simp: GetId_def GetType_def AddHeat_def IsDead_def robot_wf_def engineer_pinned_def)
  moreover have "modify_first (\<lambda>x. GetId x = (tid, rid))
           (\<lambda>x. if rtype x = kInfantry then AddHeat add_heat x else x) (live_robots m)
         = modify_first (\<lambda>x. GetId x = (tid, rid)) (AddHeat add_heat) (live_robots m)"
    if "FindLiveRobot tid rid m = Some r" "rtype r = kInfantry" for r
    using FindLiveRobot_split[OF that(1)] that(2) by auto
  ultimately show ?thesis using assms
    by (auto simp: HandleCommandH_def split: option.splits)
qed

lemma inv_U:
  assumes "manager_inv m"
  shows "manager_inv (HandCommandU tid rid target_level m)"
proof -
  have "manager_inv (m\<lparr>live_robots := modify_first (\<lambda>x. GetId x = (tid, rid))
           (\<lambda>x. if rtype x = kInfantry then snd (Upgrade target_level x) else x) (live_robots m)\<rparr>)"
    using assms
    by (rule inv_modify)
       (auto simp: Upgrade_def InfantryRobot_Rebuild_def GetId_def GetType_def Let_def
          IsDead_def robot_wf_def engineer_pinned_def)
  moreover have "modify_first (\<lambda>x. GetId x = (tid, rid))
           (\<lambda>x. if rtype x = kInfantry then snd (Upgrade target_level x) else x) (live_robots m)
         = modify_first (\<lambda>x. GetId x = (tid, rid)) (\<lambda>x. snd (Upgrade target_level x)) (live_robots m)"
    if "FindLiveRobot tid rid m = Some r" "rtype r = kInfantry" for r
    using FindLiveRobot_split[OF that(1)] that(2) by auto
  ultimately show ?thesis using assms
    by (auto simp: HandCommandU_def split: option.splits)
qed

lemma reachable_inv: "reachable m \<Longrightarrow> manager_inv m"
  by (induction rule: reachable.induct)
     (simp_all add: inv_new inv_time inv_A inv_F inv_H inv_U)

lemma main_step_reachable: "reachable m \<Longrightarrow> reachable (main_step m ln)"
  by (cases ln) (auto simp: main_step_def Let_def intro: reachable.intros)

lemma foldl_main_step_reachable: "reachable m \<Longrightarrow> reachable (foldl main_step m lns)"
  by (induction lns arbitrary: m) (simp_all add: main_step_reachable)

lemma main_loop_reachable: "reachable (main_loop lns)"
  by (simp add: main_loop_def foldl_main_step_reachable r_new)

lemma health_of_F:
  assumes "manager_inv m"
  shows "health_of tid rid (HandleCommandF tid rid damage m) = health_of tid rid m - unat damage"
proof (cases "FindLiveRobot tid rid m")
  case None
  then show ?thesis by (simp add: HandleCommandF_def health_of_def)
next
  case (Some r)
  from assms have ld: "live_distinct m" and al: "\<forall>l \<in> set (live_robots m). \<not> IsDead l"
    by (simp_all add: manager_inv_def live_alive_def)
  from find_Some_mem[OF Some[unfolded FindLiveRobot_def]]
  have rl: "r \<in> set (live_robots m)" and rid: "GetId r = (tid, rid)" by simp_all
  with al have ra: "\<not> IsDead r" by blast
  from HandleCommandF_eq[OF ld Some ra, of damage] obtain pre post where
    p: "live_robots m = pre @ r # post" "\<forall>y \<in> set pre \<union> set post. GetId y \<noteq> (tid, rid)"
       "HandleCommandF tid rid damage m =
             (if blood r \<le> damage
              then m\<lparr>live_robots := pre @ post,
                     dead_robots := dead_robots m @ [r\<lparr>blood := 0\<rparr>],
                     cout := cout m @ [(tid, rid)]\<rparr>
              else m\<lparr>live_robots := pre @ r\<lparr>blood := blood r - damage\<rparr> # post\<rparr>)"
    by blast
  from p(2) have np: "find (\<lambda>x. GetId x = (tid, rid)) pre = None"
    and nq: "find (\<lambda>x. GetId x = (tid, rid)) post = None"
    by (simp_all add: find_None_iff)
  have fapp: "find P (xs @ ys) = (case find P xs of None \<Rightarrow> find P ys | Some x \<Rightarrow> Some x)"
    for P and xs ys :: "BaseRobot list"
    by (induction xs) simp_all
  show ?thesis
  proof (cases "blood r \<le> damage")
    case True
    then have "unat (blood r) \<le> unat damage" by (simp add: word_le_nat_alt)
    with True Some p(3) np nq show ?thesis
      by (simp add: health_of_def FindLiveRobot_def fapp)
  next
    case False
    then have "damage \<le> blood r" by simp
    then have "unat (blood r - damage) = unat (blood r) - unat damage"
      by (simp add: unat_sub)
    with False Some p(3) np rid show ?thesis
      by (simp add: health_of_def FindLiveRobot_def fapp GetId_def)
  qed
qed

lemma reachable_F_seq:
  "reachable m \<Longrightarrow> reachable (foldl (\<lambda>s d. HandleCommandF tid rid d s) m ds)"
  by (induction ds arbitrary: m) (simp_all add: r_F)

lemma health_of_F_seq:
  "reachable m \<Longrightarrow>
     health_of tid rid (foldl (\<lambda>s d. HandleCommandF tid rid d s) m ds) =
       health_of tid rid m - sum_list (map unat ds)"
proof (induction ds arbitrary: m)
  case Nil
  then show ?case by simp
next
  case (Cons d ds)
  from Cons.prems have "reachable (HandleCommandF tid rid d m)" by (rule r_F)
  from Cons.IH[OF this] health_of_F[OF reachable_inv[OF Cons.prems], of tid rid d]
  show ?case by simp
qed

section \<open>The command F\<close>

text \<open>
  C5. In a reachable state, \<open>HandleCommandF\<close> returns the manager unchanged when no
  live robot has the pair. Otherwise the robot found has its health lowered by the
  damage and stopped at 0: when the damage is at least the health, the robot leaves
  \<open>live_robots\<close>, is appended to \<open>dead_robots\<close> with health 0, and the event
  \<open>(team_id, robot_id)\<close> is printed; when it is less, the robot stays in its place
  with health \<open>health - damage\<close>, which is not 0 and did not wrap. So the health the
  registry shows for the pair after any sequence of F commands against it is the
  earlier health minus the sum of the damages, stopped at 0: it never increases from
  one command to the next and never wraps below 0.
\<close>

theorem C5_damage:
  assumes "reachable m"
  shows "(FindLiveRobot tid rid m = None \<longrightarrow> HandleCommandF tid rid damage m = m) \<and>
    (\<forall>r. FindLiveRobot tid rid m = Some r \<longrightarrow>
       (\<exists>pre post. live_robots m = pre @ r # post \<and>
          (\<forall>y \<in> set pre \<union> set post. GetId y \<noteq> (tid, rid)) \<and>
          (blood r \<le> damage \<longrightarrow>
             HandleCommandF tid rid damage m =
               m\<lparr>live_robots := pre @ post,
                 dead_robots := dead_robots m @ [r\<lparr>blood := 0\<rparr>],
                 cout := cout m @ [(tid, rid)]\<rparr>) \<and>
          (damage < blood r \<longrightarrow>
             blood r - damage \<noteq> 0 \<and>
             unat (blood r - damage) = unat (blood r) - unat damage \<and>
             HandleCommandF tid rid damage m =
               m\<lparr>live_robots := pre @ r\<lparr>blood := blood r - damage\<rparr> # post\<rparr>))) \<and>
    health_of tid rid (HandleCommandF tid rid damage m) = health_of tid rid m - unat damage \<and>
    health_of tid rid (foldl (\<lambda>s d. HandleCommandF tid rid d s) m ds) =
      health_of tid rid m - sum_list (map unat ds) \<and>
    health_of tid rid (foldl (\<lambda>s d. HandleCommandF tid rid d s) m (ds @ [damage]))
      \<le> health_of tid rid (foldl (\<lambda>s d. HandleCommandF tid rid d s) m ds)"
proof -
  note inv = reachable_inv[OF assms]
  have a: "FindLiveRobot tid rid m = None \<longrightarrow> HandleCommandF tid rid damage m = m"
    by (simp add: HandleCommandF_def)
  have b: "\<forall>r. FindLiveRobot tid rid m = Some r \<longrightarrow>
       (\<exists>pre post. live_robots m = pre @ r # post \<and>
          (\<forall>y \<in> set pre \<union> set post. GetId y \<noteq> (tid, rid)) \<and>
          (blood r \<le> damage \<longrightarrow>
             HandleCommandF tid rid damage m =
               m\<lparr>live_robots := pre @ post,
                 dead_robots := dead_robots m @ [r\<lparr>blood := 0\<rparr>],
                 cout := cout m @ [(tid, rid)]\<rparr>) \<and>
          (damage < blood r \<longrightarrow>
             blood r - damage \<noteq> 0 \<and>
             unat (blood r - damage) = unat (blood r) - unat damage \<and>
             HandleCommandF tid rid damage m =
               m\<lparr>live_robots := pre @ r\<lparr>blood := blood r - damage\<rparr> # post\<rparr>))"
  proof (intro allI impI)
    fix r
    assume fl: "FindLiveRobot tid rid m = Some r"
    from inv have ld: "live_distinct m" and al: "\<forall>l \<in> set (live_robots m). \<not> IsDead l"
      by (simp_all add: manager_inv_def live_alive_def)
    from find_Some_mem[OF fl[unfolded FindLiveRobot_def]] al have ra: "\<not> IsDead r" by blast
    from HandleCommandF_eq[OF ld fl ra, of damage] obtain pre post where
      p: "live_robots m = pre @ r # post" "\<forall>y \<in> set pre \<union> set post. GetId y \<noteq> (tid, rid)"
         "HandleCommandF tid rid damage m =
             (if blood r \<le> damage
              then m\<lparr>live_robots := pre @ post,
                     dead_robots := dead_robots m @ [r\<lparr>blood := 0\<rparr>],
                     cout := cout m @ [(tid, rid)]\<rparr>
              else m\<lparr>live_robots := pre @ r\<lparr>blood := blood r - damage\<rparr> # post\<rparr>)"
      by blast
    have sub: "damage < blood r \<longrightarrow> blood r - damage \<noteq> 0 \<and>
             unat (blood r - damage) = unat (blood r) - unat damage"
      by (auto simp: unat_sub)
    from p(3) have dead: "blood r \<le> damage \<longrightarrow>
             HandleCommandF tid rid damage m =
               m\<lparr>live_robots := pre @ post,
                 dead_robots := dead_robots m @ [r\<lparr>blood := 0\<rparr>],
                 cout := cout m @ [(tid, rid)]\<rparr>" by simp
    from p(3) have live: "damage < blood r \<longrightarrow>
             HandleCommandF tid rid damage m =
               m\<lparr>live_robots := pre @ r\<lparr>blood := blood r - damage\<rparr> # post\<rparr>"
      by (simp add: not_le[symmetric])
    from p(1,2) sub dead live
    show "\<exists>pre post. live_robots m = pre @ r # post \<and>
          (\<forall>y \<in> set pre \<union> set post. GetId y \<noteq> (tid, rid)) \<and>
          (blood r \<le> damage \<longrightarrow>
             HandleCommandF tid rid damage m =
               m\<lparr>live_robots := pre @ post,
                 dead_robots := dead_robots m @ [r\<lparr>blood := 0\<rparr>],
                 cout := cout m @ [(tid, rid)]\<rparr>) \<and>
          (damage < blood r \<longrightarrow>
             blood r - damage \<noteq> 0 \<and>
             unat (blood r - damage) = unat (blood r) - unat damage \<and>
             HandleCommandF tid rid damage m =
               m\<lparr>live_robots := pre @ r\<lparr>blood := blood r - damage\<rparr> # post\<rparr>)"
      by blast
  qed
  have c: "health_of tid rid (HandleCommandF tid rid damage m) = health_of tid rid m - unat damage"
    by (rule health_of_F[OF inv])
  have d: "health_of tid rid (foldl (\<lambda>s d. HandleCommandF tid rid d s) m ds) =
      health_of tid rid m - sum_list (map unat ds)"
    by (rule health_of_F_seq[OF assms])
  have e: "health_of tid rid (foldl (\<lambda>s d. HandleCommandF tid rid d s) m (ds @ [damage]))
      \<le> health_of tid rid (foldl (\<lambda>s d. HandleCommandF tid rid d s) m ds)"
    using health_of_F[OF reachable_inv[OF reachable_F_seq[OF assms, of tid rid ds]], of tid rid damage]
    by simp
  from a b c d e show ?thesis by blast
qed

theorem C5_damage_witness:
  "reachable example_run \<and>
   FindLiveRobot 9 9 example_run = None \<and> HandleCommandF 9 9 5 example_run = example_run \<and>
   health_of 1 2 example_run = 80 \<and>
   health_of 1 2 (HandleCommandF 1 2 20 example_run) = 60 \<and>
   health_of 1 2 (foldl (\<lambda>s d. HandleCommandF 1 2 d s) example_run [20, 50, 30]) = 0"
proof -
  have r: "reachable example_run"
    unfolding example_run_def by (rule main_loop_reachable)
  have n: "FindLiveRobot 9 9 example_run = None"
    by (simp add: example_run_eq FindLiveRobot_def GetId_def)
  have h: "health_of 1 2 example_run = 80"
    by (simp add: example_run_eq health_of_def FindLiveRobot_def GetId_def)
  from r n h C5_damage[OF r, of 9 9 5 "[]"] C5_damage[OF r, of 1 2 20 "[20, 50, 30]"]
  show ?thesis by simp
qed

section \<open>The two vectors\<close>

text \<open>
  C9. In every state that calls of \<open>HandleTimeChange\<close> and of the four commands
  produce from the new manager (so in every state of a run of \<open>main\<close>, by
  \<open>main_loop_reachable\<close>), no two live robots have the same pair
  \<open>(team_id, robot_id)\<close>, whatever their kinds; no live robot has the pair and the kind
  of a dead robot; and no robot is in both vectors.
\<close>

theorem C9_registry_invariant:
  assumes "reachable m"
  shows "distinct (map GetId (live_robots m)) \<and>
    (\<forall>l \<in> set (live_robots m). \<forall>d \<in> set (dead_robots m).
       \<not> (GetId l = GetId d \<and> GetType l = GetType d)) \<and>
    set (live_robots m) \<inter> set (dead_robots m) = {}"
proof -
  from reachable_inv[OF assms] have d: "distinct (map GetId (live_robots m))"
    and k: "\<forall>l \<in> set (live_robots m). \<forall>d \<in> set (dead_robots m).
              \<not> (GetId l = GetId d \<and> GetType l = GetType d)"
    by (simp_all add: manager_inv_def live_distinct_def kind_disjoint_def)
  from k have "set (live_robots m) \<inter> set (dead_robots m) = {}" by blast
  with d k show ?thesis by blast
qed

theorem C9_registry_invariant_witness:
  "reachable example_both_dead \<and>
   map GetId (live_robots example_both_dead) = [(1, 2), (3, 1)] \<and>
   map (\<lambda>r. (GetId r, GetType r)) (dead_robots example_both_dead) =
     [((1, 1), kInfantry), ((2, 1), kInfantry), ((1, 1), kEngineer)] \<and>
   distinct (map GetId (live_robots example_both_dead)) \<and>
   set (live_robots example_both_dead) \<inter> set (dead_robots example_both_dead) = {}"
proof -
  have "reachable example_run"
    unfolding example_run_def by (rule main_loop_reachable)
  then have r: "reachable example_both_dead"
    unfolding example_both_dead_def example_later_def
    by (intro reachable.intros)
  from r C9_registry_invariant[OF r] show ?thesis
    by (simp add: example_both_dead_eq GetId_def GetType_def)
qed

section \<open>Engineers\<close>

text \<open>
  C8. \<open>HandleCommandH\<close> and \<open>HandCommandU\<close> addressed to a live Engineer return the
  manager unchanged, so every attribute of the Engineer is as before. In every
  reachable state each Engineer, live or dead, has \<open>max_blood = 300\<close>,
  \<open>max_heat = 0\<close> and \<open>heat = 0\<close>.
\<close>

theorem C8_engineer_frame:
  "(FindLiveRobot tid rid m = Some r \<and> GetType r = kEngineer \<longrightarrow>
      HandleCommandH tid rid add_heat m = m \<and> HandCommandU tid rid target_level m = m) \<and>
   (reachable m \<longrightarrow>
      (\<forall>x \<in> set (live_robots m) \<union> set (dead_robots m).
         GetType x = kEngineer \<longrightarrow> max_blood x = 300 \<and> max_heat x = 0 \<and> heat x = 0))"
proof -
  have a: "FindLiveRobot tid rid m = Some r \<and> GetType r = kEngineer \<longrightarrow>
      HandleCommandH tid rid add_heat m = m \<and> HandCommandU tid rid target_level m = m"
    by (simp add: HandleCommandH_def HandCommandU_def)
  have b: "reachable m \<longrightarrow>
      (\<forall>x \<in> set (live_robots m) \<union> set (dead_robots m).
         GetType x = kEngineer \<longrightarrow> max_blood x = 300 \<and> max_heat x = 0 \<and> heat x = 0)"
  proof
    assume "reachable m"
    from reachable_inv[OF this]
    have "\<forall>x \<in> set (live_robots m) \<union> set (dead_robots m). robot_wf x"
      by (simp add: manager_inv_def)
    then show "\<forall>x \<in> set (live_robots m) \<union> set (dead_robots m).
         GetType x = kEngineer \<longrightarrow> max_blood x = 300 \<and> max_heat x = 0 \<and> heat x = 0"
      by (simp add: robot_wf_def engineer_pinned_def)
  qed
  from a b show ?thesis by blast
qed

theorem C8_engineer_frame_witness:
  "FindLiveRobot 3 1 example_run =
     Some \<lparr>team_id = 3, robot_id = 1, heat = 0, max_heat = 0, level = 1,
           max_blood = 300, rtype = kEngineer, blood = 300\<rparr> \<and>
   HandleCommandH 3 1 50 example_run = example_run \<and>
   HandCommandU 3 1 2 example_run = example_run \<and>
   reachable example_both_dead \<and>
   last (dead_robots example_both_dead) \<in> set (dead_robots example_both_dead) \<and>
   GetType (last (dead_robots example_both_dead)) = kEngineer \<and>
   max_blood (last (dead_robots example_both_dead)) = 300 \<and>
   max_heat (last (dead_robots example_both_dead)) = 0 \<and>
   heat (last (dead_robots example_both_dead)) = 0"
proof -
  have "reachable example_run"
    unfolding example_run_def by (rule main_loop_reachable)
  then have r: "reachable example_both_dead"
    unfolding example_both_dead_def example_later_def
    by (intro reachable.intros)
  have f: "FindLiveRobot 3 1 example_run =
     Some \<lparr>team_id = 3, robot_id = 1, heat = 0, max_heat = 0, level = 1,
           max_blood = 300, rtype = kEngineer, blood = 300\<rparr>"
    by (simp add: example_run_eq FindLiveRobot_def GetId_def)
  have l: "last (dead_robots example_both_dead) \<in> set (dead_robots example_both_dead)"
      "GetType (last (dead_robots example_both_dead)) = kEngineer"
    by (simp_all add: example_both_dead_eq GetType_def)
  from r f l
    C8_engineer_frame[of 3 1 example_run
      "\<lparr>team_id = 3, robot_id = 1, heat = 0, max_heat = 0, level = 1,
        max_blood = 300, rtype = kEngineer, blood = 300\<rparr>" 50 2]
    C8_engineer_frame[of 3 1 example_both_dead
      "\<lparr>team_id = 3, robot_id = 1, heat = 0, max_heat = 0, level = 1,
        max_blood = 300, rtype = kEngineer, blood = 300\<rparr>" 50 2]
  show ?thesis by (auto simp: GetType_def)
qed

section \<open>The command H\<close>

lemma unat_add_wrap:
  "unat ((a::u32) + b) = (unat a + unat b) mod 2 ^ 32"
  by (simp add: unat_word_ariths)

lemma add_wrap_less:
  assumes "2 ^ 32 \<le> unat (a::u32) + unat b"
  shows "a + b < a"
proof -
  have "unat b < 2 ^ 32" using unsigned_less[of b] by simp
  moreover have "unat a < 2 ^ 32" using unsigned_less[of a] by simp
  ultimately have "(unat a + unat b) mod 2 ^ 32 = unat a + unat b - 2 ^ 32"
    using assms by (simp add: mod_if)
  with \<open>unat b < 2 ^ 32\<close> assms have "unat (a + b) < unat a"
    by (simp add: unat_add_wrap)
  then show ?thesis by (simp add: word_less_nat_alt)
qed

text \<open>
  C10. \<open>HandleCommandH\<close> addressed to a live Infantry replaces its heat by
  \<open>heat + add_heat\<close> on 32-bit words and changes nothing else; as a number the new
  heat is \<open>(heat + add_heat) mod 2 ^ 32\<close>. Whenever the sum reaches \<open>2 ^ 32\<close> the new
  heat is strictly below the old one: in the example run, heat 50 and the amount
  4294967290 leave heat 44.
\<close>

theorem C10_heat_wraps:
  "(FindLiveRobot tid rid m = Some r \<and> GetType r = kInfantry \<longrightarrow>
      (\<exists>pre post. live_robots m = pre @ r # post \<and>
         (\<forall>y \<in> set pre. GetId y \<noteq> (tid, rid)) \<and>
         HandleCommandH tid rid add_heat m =
           m\<lparr>live_robots := pre @ r\<lparr>heat := heat r + add_heat\<rparr> # post\<rparr>)) \<and>
   unat (heat r + add_heat) = (unat (heat r) + unat add_heat) mod 2 ^ 32 \<and>
   (2 ^ 32 \<le> unat (heat r) + unat add_heat \<longrightarrow> heat r + add_heat < heat r) \<and>
   map heat (live_robots example_run) = [250, 50, 300, 0] \<and>
   map heat (live_robots (HandleCommandH 1 2 4294967290 example_run)) = [250, 44, 300, 0]"
proof -
  have a: "FindLiveRobot tid rid m = Some r \<and> GetType r = kInfantry \<longrightarrow>
      (\<exists>pre post. live_robots m = pre @ r # post \<and>
         (\<forall>y \<in> set pre. GetId y \<noteq> (tid, rid)) \<and>
         HandleCommandH tid rid add_heat m =
           m\<lparr>live_robots := pre @ r\<lparr>heat := heat r + add_heat\<rparr> # post\<rparr>)"
  proof
    assume h: "FindLiveRobot tid rid m = Some r \<and> GetType r = kInfantry"
    from FindLiveRobot_split[of tid rid m r] h obtain pre post where
      p: "live_robots m = pre @ r # post" "\<forall>y \<in> set pre. GetId y \<noteq> (tid, rid)"
         "\<forall>f. modify_first (\<lambda>x. GetId x = (tid, rid)) f (live_robots m) = pre @ f r # post"
      by blast
    from h p(3) have "HandleCommandH tid rid add_heat m =
        m\<lparr>live_robots := pre @ r\<lparr>heat := heat r + add_heat\<rparr> # post\<rparr>"
      by (simp add: HandleCommandH_def GetType_def AddHeat_def)
    with p(1,2) show "\<exists>pre post. live_robots m = pre @ r # post \<and>
         (\<forall>y \<in> set pre. GetId y \<noteq> (tid, rid)) \<and>
         HandleCommandH tid rid add_heat m =
           m\<lparr>live_robots := pre @ r\<lparr>heat := heat r + add_heat\<rparr> # post\<rparr>"
      by blast
  qed
  have b: "unat (heat r + add_heat) = (unat (heat r) + unat add_heat) mod 2 ^ 32"
    by (rule unat_add_wrap)
  have c: "2 ^ 32 \<le> unat (heat r) + unat add_heat \<longrightarrow> heat r + add_heat < heat r"
    using add_wrap_less by blast
  have d: "map heat (live_robots example_run) = [250, 50, 300, 0] \<and>
     map heat (live_robots (HandleCommandH 1 2 4294967290 example_run)) = [250, 44, 300, 0]"
    by (simp add: example_run_eq HandleCommandH_def FindLiveRobot_def GetId_def GetType_def
        AddHeat_def)
  from a b c d show ?thesis by blast
qed

theorem C10_heat_wraps_witness:
  "FindLiveRobot 1 2 example_run =
     Some \<lparr>team_id = 1, robot_id = 2, heat = 50, max_heat = 100, level = 1,
           max_blood = 100, rtype = kInfantry, blood = 80\<rparr> \<and>
   (2::nat) ^ 32 \<le> unat (50 :: u32) + unat (4294967290 :: u32) \<and>
   (50 :: u32) + 4294967290 = 44 \<and> (44 :: u32) < 50"
  using C10_heat_wraps[of 1 2 example_run
      "\<lparr>team_id = 1, robot_id = 2, heat = 50, max_heat = 100, level = 1,
        max_blood = 100, rtype = kInfantry, blood = 80\<rparr>" 4294967290]
  by (simp add: example_run_eq FindLiveRobot_def GetId_def)

end
